theory Spec2Isabelle
  imports Complex_Main "HOL-Library.AList"
begin

section \<open>Python exceptions as values\<close>

text \<open>
  Every \<^verbatim>\<open>raise\<close> of the source is a value of type \<open>error\<close>; the string is the
  message of the exception (for an \<open>AttributeError\<close> or \<open>KeyError\<close>, the name that was
  looked up). A computation that may raise returns \<open>error + 'a\<close>, with \<open>Inl\<close> the exception.
\<close>

datatype error =
    ValueError string
  | TypeError string
  | NotImplementedError string
  | KeyError string
  | AttributeError string
  | IndexError string
  | UnboundLocalError string
  | OSError string
  | Exception string

definition ebind :: "error + 'a \<Rightarrow> ('a \<Rightarrow> error + 'b) \<Rightarrow> error + 'b" where
  "ebind r f = (case r of Inl e \<Rightarrow> Inl e | Inr v \<Rightarrow> f v)"

section \<open>Floating-point values, idealised\<close>

text \<open>
  A numpy float is modelled as an extended real: a finite value is an exact real number
  (rounding and overflow are not modelled), and the three special values of IEEE arithmetic
  are kept, because numpy divides by zero without raising. A zero is always read as \<open>+0\<close>.
\<close>

datatype fl = Fin real | PInf | NInf | NaN





section \<open>Prior models (beast/physicsmodel/priormodel.py)\<close>

subsection \<open>The model specification\<close>

text \<open>
  The \<^verbatim>\<open>model\<close> dictionary of a prior: the entry \<^verbatim>\<open>"name"\<close> (absent: \<open>None\<close>), the
  entries that hold a number (\<^verbatim>\<open>amp\<close>, \<^verbatim>\<open>mean\<close>, \<^verbatim>\<open>sigma\<close>, \<^verbatim>\<open>tau\<close>, ...) and the
  entries that hold a list of numbers (\<^verbatim>\<open>x\<close>, \<^verbatim>\<open>values\<close>). A \<^verbatim>\<open>PriorModel\<close> instance
  has the single attribute \<^verbatim>\<open>self.model\<close>, so an instance is its model.
\<close>

record model =
  name :: "string option"
  scalars :: "string \<rightharpoonup> real"
  arrays :: "string \<rightharpoonup> real list"

definition scalar :: "model \<Rightarrow> string \<Rightarrow> error + real" where
  "scalar m k = (case scalars m k of None \<Rightarrow> Inl (KeyError k) | Some v \<Rightarrow> Inr v)"

definition array :: "model \<Rightarrow> string \<Rightarrow> error + real list" where
  "array m k = (case arrays m k of None \<Rightarrow> Inl (KeyError k) | Some v \<Rightarrow> Inr v)"

subsection \<open>Construction and the allow-lists\<close>

definition PriorModel_init :: "model \<Rightarrow> string list option \<Rightarrow> error + model" where
  "PriorModel_init m allowed_models =
     (case allowed_models of
        None \<Rightarrow> Inr m
      | Some allowed \<Rightarrow>
          (case name m of
             None \<Rightarrow> Inl (KeyError ''name'')
           | Some modname \<Rightarrow>
               if modname \<notin> set allowed
               then Inl (NotImplementedError (modname @ '' is not an allowed model''))
               else Inr m))"

definition PriorDustModel_init :: "model \<Rightarrow> error + model" where
  "PriorDustModel_init m =
     PriorModel_init m (Some [''flat'', ''lognormal'', ''two_lognormal'', ''exponential''])"

definition PriorAgeModel_init :: "model \<Rightarrow> error + model" where
  "PriorAgeModel_init m =
     PriorModel_init m
       (Some [''flat'', ''flat_log'', ''bins_histo'', ''bins_interp'', ''exponential''])"

definition PriorMetallicityModel_init :: "model \<Rightarrow> error + model" where
  "PriorMetallicityModel_init m = PriorModel_init m (Some [''flat''])"

definition PriorDistanceModel_init :: "model \<Rightarrow> error + model" where
  "PriorDistanceModel_init m = PriorModel_init m (Some [''flat''])"

definition PriorMassModel_init :: "model \<Rightarrow> error + model" where
  "PriorMassModel_init m = PriorModel_init m (Some [''flat'', ''salpeter'', ''kroupa''])"

subsection \<open>Library functions\<close>

text \<open>
  Functions of numpy, scipy and of modules of the package that the prior models call:
  \<^item> \<open>interp1d_zero xs ys x\<close> is \<^verbatim>\<open>interp1d(xs, ys, kind="zero")(x)\<close> of scipy;
  \<^item> \<open>pm_lognorm\<close>, \<open>pm_two_lognorm\<close> and \<open>pm_exponential\<close> are \<^verbatim>\<open>_lognorm\<close>,
    \<^verbatim>\<open>_two_lognorm\<close> and \<^verbatim>\<open>_exponential\<close> of \<^verbatim>\<open>priormodel_functions\<close>, with their
    arguments in the order of the calls;
  \<^item> \<open>quad f a b\<close> is \<^verbatim>\<open>quad(f, a, b)[0]\<close> of scipy, for \<open>f\<close> one of the three
    initial mass functions of \<^verbatim>\<open>priormodel_functions\<close>.
  They are parameters of the model: nothing is assumed about what they return.
\<close>

datatype imf = imf_kroupa | imf_salpeter | imf_flat

record lib =
  interp1d_zero :: "real list \<Rightarrow> real list \<Rightarrow> real list \<Rightarrow> error + fl list"
  pm_lognorm :: "real list \<Rightarrow> real \<Rightarrow> real \<Rightarrow> error + fl list"
  pm_two_lognorm ::
    "real list \<Rightarrow> real \<Rightarrow> real \<Rightarrow> real \<Rightarrow> real \<Rightarrow> real \<Rightarrow> real \<Rightarrow> error + fl list"
  pm_exponential :: "real list \<Rightarrow> real \<Rightarrow> error + fl list"
  quad :: "imf \<Rightarrow> real \<Rightarrow> real \<Rightarrow> fl"

text \<open>\<^verbatim>\<open>np.max\<close> and \<^verbatim>\<open>np.min\<close>: a \<^verbatim>\<open>ValueError\<close> on an empty array.\<close>

fun np_max :: "real list \<Rightarrow> error + real" where
  "np_max [] =
     Inl (ValueError ''zero-size array to reduction operation maximum which has no identity'')"
| "np_max (v # vs) = Inr (fold max vs v)"

fun np_min :: "real list \<Rightarrow> error + real" where
  "np_min [] =
     Inl (ValueError ''zero-size array to reduction operation minimum which has no identity'')"
| "np_min (v # vs) = Inr (fold min vs v)"

text \<open>
  The list comprehension of the range check of \<^verbatim>\<open>bins_histo\<close>,
  \<^verbatim>\<open>[np.max(x) <= cval <= np.min(x) for cval in self.model["values"]]\<close>:
  the chained comparison evaluates \<^verbatim>\<open>np.min(x)\<close> only when its first half holds.
\<close>

fun bins_histo_flags :: "real list \<Rightarrow> real list \<Rightarrow> error + bool list" where
  "bins_histo_flags [] x = Inr []"
| "bins_histo_flags (cval # cvals) x =
     ebind (np_max x) (\<lambda>mx.
     ebind (if mx \<le> cval then ebind (np_min x) (\<lambda>mn. Inr (cval \<le> mn)) else Inr False) (\<lambda>b.
     ebind (bins_histo_flags cvals x) (\<lambda>bs. Inr (b # bs))))"

definition np_all :: "bool list \<Rightarrow> bool" where
  "np_all bs = foldr (\<and>) bs True"

text \<open>
  Modelled from the spec: \<^verbatim>\<open>np.interp(x, xp, fp)\<close> of numpy, which is not part of the
  sources: piecewise-linear interpolation of the control points \<open>(xp, fp)\<close>, clamped at the
  ends to the nearest control value. On the segment from \<open>(x0, y0)\<close> to \<open>(x1, y1)\<close> the
  value is \<open>y0 + (y1 - y0) / (x1 - x0) * (v - x0)\<close>. numpy raises a \<^verbatim>\<open>ValueError\<close> for
  an empty \<open>xp\<close> and for \<open>xp\<close> and \<open>fp\<close> of different lengths.
\<close>

fun interp_from :: "(real \<times> real) list \<Rightarrow> real \<Rightarrow> real" where
  "interp_from [] v = 0"
| "interp_from [(x0, y0)] v = y0"
| "interp_from ((x0, y0) # (x1, y1) # ps) v =
     (if v < x1 then y0 + (y1 - y0) / (x1 - x0) * (v - x0)
      else interp_from ((x1, y1) # ps) v)"

fun interp_point :: "(real \<times> real) list \<Rightarrow> real \<Rightarrow> real" where
  "interp_point [] v = 0"
| "interp_point ((x0, y0) # ps) v = (if v < x0 then y0 else interp_from ((x0, y0) # ps) v)"

definition np_interp :: "real list \<Rightarrow> real list \<Rightarrow> real list \<Rightarrow> error + real list" where
  "np_interp x xp fp =
     (if xp = [] then Inl (ValueError ''array of sample points is empty'')
      else if length fp \<noteq> length xp then Inl (ValueError ''fp and xp are not of the same length.'')
      else Inr (map (interp_point (zip xp fp)) x))"

subsection \<open>Evaluation: \<^verbatim>\<open>PriorModel.__call__\<close>\<close>

text \<open>
  A call returns the weights, or the exception, together with the model as the call leaves
  it: line 68 appends to the list \<^verbatim>\<open>self.model["values"]\<close> in place, and the list stays
  changed when a later line raises.
\<close>

definition PriorModel_call :: "lib \<Rightarrow> model \<Rightarrow> real list \<Rightarrow> (error + fl list) \<times> model" where
  "PriorModel_call L m x =
     (case name m of
        None \<Rightarrow> (Inl (KeyError ''name''), m)
      | Some nm \<Rightarrow>
          if nm = ''flat'' then
            (let amp = (case scalars m ''amp'' of Some a \<Rightarrow> a | None \<Rightarrow> 1)
             in (Inr (replicate (length x) (Fin amp)), m))
          else if nm = ''bins_histo'' then
            (case array m ''values'' of
               Inl e \<Rightarrow> (Inl e, m)
             | Inr vals \<Rightarrow>
                 (case bins_histo_flags vals x of
                    Inl e \<Rightarrow> (Inl e, m)
                  | Inr flags \<Rightarrow>
                      if np_all flags
                      then (Inl (ValueError
                                  ''bins_histo requested bins outside of model range''), m)
                      else
                        (case array m ''x'' of
                           Inl e \<Rightarrow> (Inl e, m)
                         | Inr xs \<Rightarrow>
                             if int (length vals) = int (length xs) - 1
                             then (interp1d_zero L xs (vals @ [0]) x,
                                   m\<lparr>arrays := (arrays m)(''values'' \<mapsto> vals @ [0])\<rparr>)
                             else (interp1d_zero L xs vals x, m))))
          else if nm = ''bins_interp'' then
            (ebind (array m ''x'') (\<lambda>xp.
             ebind (array m ''values'') (\<lambda>fp.
             ebind (np_interp x xp fp) (\<lambda>r. Inr (map Fin r)))), m)
          else if nm = ''lognormal'' then
            (ebind (scalar m ''mean'') (\<lambda>mean.
             ebind (scalar m ''sigma'') (\<lambda>sigma. pm_lognorm L x mean sigma)), m)
          else if nm = ''two_lognormal'' then
            (ebind (scalar m ''mean1'') (\<lambda>mean1.
             ebind (scalar m ''mean2'') (\<lambda>mean2.
             ebind (scalar m ''sigma1'') (\<lambda>sigma1.
             ebind (scalar m ''sigma2'') (\<lambda>sigma2.
             ebind (scalar m ''N1_to_N2'') (\<lambda>N1.
               pm_two_lognorm L x mean1 mean2 sigma1 sigma2 N1 1))))), m)
          else if nm = ''exponential'' then
            (ebind (scalar m ''tau'') (\<lambda>tau. pm_exponential L x tau), m)
          else (Inl (NotImplementedError (nm @ '' is not an allowed model'')), m))"

subsection \<open>The bin boundaries\<close>



subsection \<open>Evaluation: \<^verbatim>\<open>PriorAgeModel.__call__\<close>\<close>


subsection \<open>Evaluation: \<^verbatim>\<open>PriorMassModel.__call__\<close>\<close>





section \<open>Grid backends (beast/physicsmodel/helpers/gridbackends.py)\<close>

subsection \<open>Python objects and the store\<close>

text \<open>
  The backends share arrays, tables and dictionaries by reference, so the objects live in a
  store and an attribute holds a value: \<^verbatim>\<open>None\<close>, an immutable string, bytes or number, or
  the address of an object of the store. A new object is put at the end of the store.
\<close>

datatype pyval = PyNone | PyStr string | PyBytes string | PyFloat real | PyRef nat

datatype bclass = GridBackendC | MemoryBackendC | CacheBackendC | HDFBackendC

datatype pyobj =
    Array1 "real list"
  | Array2 "real list list"
  | TableObj "(string \<times> real list) list" pyval
  | DictObj "(string \<times> pyval) list"
  | ListObj "pyval list"
  | Instance bclass "(string \<times> pyval) list"
  | StoreNode string

text \<open>
  \<open>TableObj cols meta\<close> is an \<^verbatim>\<open>astropy.table.Table\<close> with its columns and its attribute
  \<^verbatim>\<open>meta\<close>; \<open>Instance c d\<close> is a backend of class \<open>c\<close> with the attribute dictionary \<open>d\<close>;
  \<open>StoreNode p\<close> is the node at path \<open>p\<close> of an \<^verbatim>\<open>HDFStore\<close>.
\<close>

type_synonym store = "pyobj list"

text \<open>
  A computation on the store returns its value, or the exception it raised, together with
  the store as it leaves it: what was written before an exception stays written.
\<close>

type_synonym 'a py = "store \<Rightarrow> (error + 'a) \<times> store"

definition py_return :: "'a \<Rightarrow> 'a py" where
  "py_return v s = (Inr v, s)"

definition py_raise :: "error \<Rightarrow> 'a py" where
  "py_raise e s = (Inl e, s)"

definition py_bind :: "'a py \<Rightarrow> ('a \<Rightarrow> 'b py) \<Rightarrow> 'b py" where
  "py_bind m f s = (case m s of (Inl e, s') \<Rightarrow> (Inl e, s') | (Inr v, s') \<Rightarrow> f v s')"

definition py_then :: "'a py \<Rightarrow> 'b py \<Rightarrow> 'b py" where
  "py_then m k = py_bind m (\<lambda>_. k)"

definition py_lift :: "error + 'a \<Rightarrow> 'a py" where
  "py_lift r s = (r, s)"

definition py_alloc :: "pyobj \<Rightarrow> pyval py" where
  "py_alloc ob s = (Inr (PyRef (length s)), s @ [ob])"

definition obj_at :: "store \<Rightarrow> pyval \<Rightarrow> pyobj option" where
  "obj_at s v = (case v of PyRef a \<Rightarrow> (if a < length s then Some (s ! a) else None) | _ \<Rightarrow> None)"

definition obj_put :: "pyval \<Rightarrow> pyobj \<Rightarrow> unit py" where
  "obj_put v ob s =
     (case v of
        PyRef a \<Rightarrow>
          if a < length s then (Inr (), s[a := ob]) else (Inl (Exception ''dangling reference''), s)
      | _ \<Rightarrow> (Inl (Exception ''not a reference''), s))"

text \<open>
  Truth of a value (\<^verbatim>\<open>a or b\<close>): \<^verbatim>\<open>None\<close>, the empty string and zero are false. The
  values tested are header entries, which are strings, bytes, numbers or \<^verbatim>\<open>None\<close>; a
  reference counts as true.
\<close>

definition truthy :: "pyval \<Rightarrow> bool" where
  "truthy v = (case v of PyNone \<Rightarrow> False | PyStr t \<Rightarrow> t \<noteq> [] | PyBytes t \<Rightarrow> t \<noteq> []
                 | PyFloat r \<Rightarrow> r \<noteq> 0 | PyRef a \<Rightarrow> True)"

definition py_or :: "pyval \<Rightarrow> pyval \<Rightarrow> pyval" where
  "py_or a b = (if truthy a then a else b)"

subsection \<open>Attributes, dictionaries, strings\<close>

text \<open>Reading and writing an entry of the attribute dictionary of an instance.\<close>

definition getattr_plain :: "pyval \<Rightarrow> string \<Rightarrow> pyval py" where
  "getattr_plain self k s =
     (case obj_at s self of
        Some (Instance c d) \<Rightarrow>
          (case map_of d k of Some v \<Rightarrow> (Inr v, s) | None \<Rightarrow> (Inl (AttributeError k), s))
      | _ \<Rightarrow> (Inl (AttributeError k), s))"

definition setattr :: "pyval \<Rightarrow> string \<Rightarrow> pyval \<Rightarrow> unit py" where
  "setattr self k v s =
     (case obj_at s self of
        Some (Instance c d) \<Rightarrow> obj_put self (Instance c (AList.update k v d)) s
      | _ \<Rightarrow> (Inl (AttributeError k), s))"

text \<open>
  An attribute of an object that is not a backend. A \<^verbatim>\<open>Table\<close> of astropy keeps its
  metadata in the attribute \<^verbatim>\<open>meta\<close> (as lines 176, 366 and 492 use it) and has no
  attribute \<^verbatim>\<open>header\<close>; \<^verbatim>\<open>None\<close> has no attributes.
\<close>

definition obj_getattr :: "pyval \<Rightarrow> string \<Rightarrow> pyval py" where
  "obj_getattr v k s =
     (case obj_at s v of
        Some (TableObj cols meta) \<Rightarrow>
          if k = ''meta'' then (Inr meta, s) else (Inl (AttributeError k), s)
      | _ \<Rightarrow> (Inl (AttributeError k), s))"

definition table_set_meta :: "pyval \<Rightarrow> pyval \<Rightarrow> unit py" where
  "table_set_meta v meta s =
     (case obj_at s v of
        Some (TableObj cols old) \<Rightarrow> obj_put v (TableObj cols meta) s
      | _ \<Rightarrow> (Inl (AttributeError ''meta''), s))"

definition is_Table :: "store \<Rightarrow> pyval \<Rightarrow> bool" where
  "is_Table s v = (case obj_at s v of Some (TableObj cols meta) \<Rightarrow> True | _ \<Rightarrow> False)"

text \<open>\<^verbatim>\<open>d.get(k, None)\<close>, \<^verbatim>\<open>d.keys()\<close>, \<^verbatim>\<open>d.items()\<close> and \<^verbatim>\<open>d[k] = v\<close> on a dictionary.\<close>

definition dict_items :: "pyval \<Rightarrow> string \<Rightarrow> (string \<times> pyval) list py" where
  "dict_items d what s =
     (case obj_at s d of
        Some (DictObj kvs) \<Rightarrow> (Inr kvs, s)
      | _ \<Rightarrow> (Inl (AttributeError what), s))"

definition dict_get :: "pyval \<Rightarrow> string \<Rightarrow> pyval py" where
  "dict_get d k =
     py_bind (dict_items d ''get'') (\<lambda>kvs.
       py_return (case map_of kvs k of Some v \<Rightarrow> v | None \<Rightarrow> PyNone))"

definition dict_keys :: "pyval \<Rightarrow> string list py" where
  "dict_keys d = py_bind (dict_items d ''keys'') (\<lambda>kvs. py_return (map fst kvs))"

definition dict_setitem :: "pyval \<Rightarrow> string \<Rightarrow> pyval \<Rightarrow> unit py" where
  "dict_setitem d k v s =
     (case obj_at s d of
        Some (DictObj kvs) \<Rightarrow> obj_put d (DictObj (AList.update k v kvs)) s
      | _ \<Rightarrow> (Inl (TypeError ''object does not support item assignment''), s))"

fun dict_update_all :: "pyval \<Rightarrow> (string \<times> pyval) list \<Rightarrow> unit py" where
  "dict_update_all d [] = py_return ()"
| "dict_update_all d ((k, v) # kvs) = py_then (dict_setitem d k v) (dict_update_all d kvs)"

text \<open>\<^verbatim>\<open>str.split(sep)\<close>, \<^verbatim>\<open>str.split()\<close> on white space, and \<^verbatim>\<open>" ".join\<close>.\<close>

fun py_split :: "char \<Rightarrow> string \<Rightarrow> string list" where
  "py_split sep [] = [[]]"
| "py_split sep (c # cs) =
     (if c = sep then [] # py_split sep cs
      else (case py_split sep cs of w # ws \<Rightarrow> (c # w) # ws | [] \<Rightarrow> [[c]]))"

definition is_space :: "char \<Rightarrow> bool" where
  "is_space c = (c \<in> set [CHR '' '', CHR 0x09, CHR 0x0A, CHR 0x0B, CHR 0x0C, CHR 0x0D])"

fun split_ws :: "string \<Rightarrow> string \<Rightarrow> string list" where
  "split_ws w [] = (if w = [] then [] else [w])"
| "split_ws w (c # cs) =
     (if is_space c then (if w = [] then split_ws [] cs else w # split_ws [] cs)
      else split_ws (w @ [c]) cs)"

fun py_join :: "string \<Rightarrow> string list \<Rightarrow> string" where
  "py_join sep [] = []"
| "py_join sep [w] = w"
| "py_join sep (w # v # ws) = w @ sep @ py_join sep (v # ws)"

text \<open>\<^verbatim>\<open>r.split()\<close> of a value: a new list of strings, or of bytes.\<close>

definition val_split :: "pyval \<Rightarrow> pyval py" where
  "val_split v =
     (case v of
        PyStr t \<Rightarrow> py_alloc (ListObj (map PyStr (split_ws [] t)))
      | PyBytes t \<Rightarrow> py_alloc (ListObj (map PyBytes (split_ws [] t)))
      | _ \<Rightarrow> py_raise (AttributeError ''split''))"

subsection \<open>Reading files\<close>

text \<open>
  The calls into astropy, h5py and the \<^verbatim>\<open>HDFStore\<close> of the package that read a file
  are parameters of the model; each returns the content of a new object, which the model
  puts into the store.
  \<^item> \<open>fits_extnames f\<close>: the lower-case \<^verbatim>\<open>EXTNAME\<close>s of the extensions of \<open>f\<close> (line 333);
  \<^item> \<open>fits_data f None\<close> is \<^verbatim>\<open>f[0].data\<close> and \<open>fits_data f (Some n)\<close> is \<^verbatim>\<open>f[n].data\<close>;
  \<^item> \<open>fits_table f\<close> is \<^verbatim>\<open>Table(f["grid"].data)\<close>, columns and metadata;
  \<^item> \<open>fits_header_get f k\<close> is \<^verbatim>\<open>f["grid"].header.get(k, None)\<close>;
  \<^item> \<open>table_read f\<close> is \<^verbatim>\<open>Table.read(f)\<close> and \<open>table_read_hdf5 f\<close> is
    \<^verbatim>\<open>Table.read(f, path="grid", format="hdf5")\<close>;
  \<^item> \<open>h5_keys f\<close> and \<open>h5_data f k\<close> are \<^verbatim>\<open>s.keys()\<close> and \<^verbatim>\<open>s[k][()]\<close> of
    \<^verbatim>\<open>h5py.File(f, "r")\<close>;
  \<^item> \<open>hdf_header\<close>, \<open>hdf_filters\<close> and \<open>hdf_store_write\<close> are the properties
    \<^verbatim>\<open>header\<close> and \<^verbatim>\<open>filters\<close> of \<^verbatim>\<open>HDFBackend\<close> and the body of the
    \<^verbatim>\<open>with\<close> statement of its \<^verbatim>\<open>writeHDF\<close> (lines 680 to 697), which work on the nodes
    of an \<^verbatim>\<open>HDFStore\<close>.
\<close>

type_synonym table_content = "(string \<times> real list) list \<times> (string \<times> pyval) list"

datatype hdu = PrimaryHDU pyval | ImageHDU pyval string | BinTableHDU pyval string

text \<open>
  What a writer hands to the library: the HDU list given to \<^verbatim>\<open>writeto\<close>, or the datasets
  assigned in the new HDF5 file and the table appended at the path \<^verbatim>\<open>grid\<close>, or the
  writes of an \<^verbatim>\<open>HDFStore\<close>; \<open>NoWrite\<close> when the writer returns without writing.
\<close>

datatype written =
    FitsWrite string bool "hdu list"
  | HdfWrite string "(string \<times> pyval) list" pyval
  | StoreWrite string
  | NoWrite

record io =
  fits_extnames :: "string \<Rightarrow> error + string list"
  fits_data :: "string \<Rightarrow> string option \<Rightarrow> error + pyobj option"
  fits_table :: "string \<Rightarrow> error + table_content"
  fits_header_get :: "string \<Rightarrow> string \<Rightarrow> error + pyval"
  table_read :: "string \<Rightarrow> error + table_content"
  table_read_hdf5 :: "string \<Rightarrow> error + table_content"
  h5_keys :: "string \<Rightarrow> error + string list"
  h5_data :: "string \<Rightarrow> string \<Rightarrow> error + pyobj"
  hdf_header :: "pyval \<Rightarrow> pyval py"
  hdf_filters :: "pyval \<Rightarrow> pyval py"
  hdf_store_write :: "pyval \<Rightarrow> string \<Rightarrow> bool \<Rightarrow> written py"

text \<open>A value read from a file becomes a new object, and \<^verbatim>\<open>None\<close> stays \<^verbatim>\<open>None\<close>.\<close>

definition new_data :: "error + pyobj option \<Rightarrow> pyval py" where
  "new_data r =
     py_bind (py_lift r) (\<lambda>d. case d of None \<Rightarrow> py_return PyNone | Some ob \<Rightarrow> py_alloc ob)"

definition new_array :: "error + pyobj \<Rightarrow> pyval py" where
  "new_array r = py_bind (py_lift r) py_alloc"

definition new_table :: "error + table_content \<Rightarrow> pyval py" where
  "new_table r =
     py_bind (py_lift r) (\<lambda>(cols, meta).
     py_bind (py_alloc (DictObj meta)) (\<lambda>m.
     py_alloc (TableObj cols m)))"

subsection \<open>\<^verbatim>\<open>GridBackend\<close>\<close>

definition GridBackend_init :: "pyval \<Rightarrow> unit py" where
  "GridBackend_init self =
     py_then (setattr self ''_filters'' PyNone)
    (py_then (setattr self ''_header'' PyNone)
    (py_then (setattr self ''fname'' PyNone)
    (py_bind (py_alloc (DictObj [])) (setattr self ''_aliases''))))"

definition get_type :: "string \<Rightarrow> error + string" where
  "get_type fname =
     (let types = [(''fits'', ''fits''), (''hdf'', ''hdf''), (''hd5'', ''hdf''), (''hdf5'', ''hdf'')];
          fext = last (py_split CHR ''.'' fname)
      in case map_of types fext of
           None \<Rightarrow> Inl (ValueError (fext @ '' file type not supported''))
         | Some t \<Rightarrow> Inr t)"

subsection \<open>\<^verbatim>\<open>CacheBackend\<close>\<close>

definition CacheBackend_clear :: "pyval \<Rightarrow> string option \<Rightarrow> unit py" where
  "CacheBackend_clear self attrname =
     (case attrname of
        None \<Rightarrow>
          py_then (setattr self ''_seds'' PyNone)
         (py_then (setattr self ''_lamb'' PyNone)
         (py_then (setattr self ''_cov_diag'' PyNone)
         (py_then (setattr self ''_cov_offdiag'' PyNone)
         (py_then (setattr self ''_filters'' PyNone)
         (py_then (setattr self ''_grid'' PyNone)
                  (setattr self ''_header'' PyNone))))))
      | Some a \<Rightarrow> setattr self (''_'' @ a) PyNone)"

definition CacheBackend_init :: "pyval \<Rightarrow> string \<Rightarrow> unit py" where
  "CacheBackend_init self fname =
     py_then (GridBackend_init self)
    (py_then (setattr self ''fname'' (PyStr fname))
    (py_bind (py_lift (get_type fname)) (\<lambda>t.
     py_then (setattr self ''_type'' (PyStr t))
             (CacheBackend_clear self None))))"

definition CacheBackend_new :: "string \<Rightarrow> pyval py" where
  "CacheBackend_new fname =
     py_bind (py_alloc (Instance CacheBackendC [])) (\<lambda>self.
     py_then (CacheBackend_init self fname) (py_return self))"

text \<open>The file name \<^verbatim>\<open>self.fname\<close> as the library calls take it.\<close>

definition fname_of :: "pyval \<Rightarrow> string py" where
  "fname_of self =
     py_bind (getattr_plain self ''fname'') (\<lambda>v.
       case v of PyStr f \<Rightarrow> py_return f | _ \<Rightarrow> py_raise (TypeError ''fname''))"

text \<open>
  The common shape of \<^verbatim>\<open>_load_seds\<close>, \<^verbatim>\<open>_load_cov_diag\<close>, \<^verbatim>\<open>_load_cov_offdiag\<close> and
  \<^verbatim>\<open>_load_lamb\<close>: nothing when the slot is filled, else the read that fits \<^verbatim>\<open>self._type\<close>.
\<close>

definition cache_load ::
  "pyval \<Rightarrow> string \<Rightarrow> (string \<Rightarrow> pyval py) \<Rightarrow> (string \<Rightarrow> pyval py) \<Rightarrow> unit py" where
  "cache_load self slot from_fits from_hdf =
     py_bind (getattr_plain self slot) (\<lambda>cur.
       if cur \<noteq> PyNone then py_return ()
       else
         py_bind (getattr_plain self ''_type'') (\<lambda>t.
           if t = PyStr ''fits'' then
             py_bind (fname_of self) (\<lambda>f. py_bind (from_fits f) (setattr self slot))
           else if t = PyStr ''hdf'' then
             py_bind (fname_of self) (\<lambda>f. py_bind (from_hdf f) (setattr self slot))
           else py_return ()))"

definition CacheBackend_load_seds :: "io \<Rightarrow> pyval \<Rightarrow> unit py" where
  "CacheBackend_load_seds io self =
     cache_load self ''_seds'' (\<lambda>f. new_data (fits_data io f (Some ''seds'')))
       (\<lambda>f. new_array (h5_data io f ''seds''))"

definition CacheBackend_load_cov_diag :: "io \<Rightarrow> pyval \<Rightarrow> unit py" where
  "CacheBackend_load_cov_diag io self =
     cache_load self ''_cov_diag'' (\<lambda>f. new_data (fits_data io f (Some ''covdiag'')))
       (\<lambda>f. new_array (h5_data io f ''covdiag''))"

definition CacheBackend_load_cov_offdiag :: "io \<Rightarrow> pyval \<Rightarrow> unit py" where
  "CacheBackend_load_cov_offdiag io self =
     cache_load self ''_cov_offdiag'' (\<lambda>f. new_data (fits_data io f (Some ''covoffdiag'')))
       (\<lambda>f. new_array (h5_data io f ''covoffdiag''))"

definition CacheBackend_load_lamb :: "io \<Rightarrow> pyval \<Rightarrow> unit py" where
  "CacheBackend_load_lamb io self =
     cache_load self ''_lamb'' (\<lambda>f. new_data (fits_data io f None))
       (\<lambda>f. new_array (h5_data io f ''lamb''))"

text \<open>
  \<^verbatim>\<open>_load_grid\<close>. Line 492 reads \<^verbatim>\<open>self.grid\<close>, which enters \<^verbatim>\<open>_load_grid\<close> again:
  that does nothing once \<^verbatim>\<open>_grid\<close> is set, and never returns when \<^verbatim>\<open>_type\<close> is neither
  \<^verbatim>\<open>fits\<close> nor \<^verbatim>\<open>hdf\<close> and \<^verbatim>\<open>_grid\<close> is still \<^verbatim>\<open>None\<close>.
\<close>

definition CacheBackend_load_grid :: "io \<Rightarrow> pyval \<Rightarrow> unit py" where
  "CacheBackend_load_grid io self =
     py_bind (getattr_plain self ''_grid'') (\<lambda>cur.
       if cur \<noteq> PyNone then py_return ()
       else
         py_bind (getattr_plain self ''_type'') (\<lambda>t.
         py_then
           (if t = PyStr ''fits'' then
              py_bind (fname_of self) (\<lambda>f.
              py_bind (new_table (table_read io f)) (setattr self ''_grid''))
            else if t = PyStr ''hdf'' then
              py_bind (fname_of self) (\<lambda>f.
              py_bind (new_table (table_read_hdf5 io f)) (setattr self ''_grid''))
            else py_raise (Exception ''maximum recursion depth exceeded''))
           (py_bind (getattr_plain self ''_grid'') (\<lambda>g.
            py_bind (obj_getattr g ''meta'') (setattr self ''_header'')))))"

definition CacheBackend_seds :: "io \<Rightarrow> pyval \<Rightarrow> pyval py" where
  "CacheBackend_seds io self =
     py_then (CacheBackend_load_seds io self) (getattr_plain self ''_seds'')"

definition CacheBackend_lamb :: "io \<Rightarrow> pyval \<Rightarrow> pyval py" where
  "CacheBackend_lamb io self =
     py_then (CacheBackend_load_lamb io self) (getattr_plain self ''_lamb'')"

definition CacheBackend_cov_diag :: "io \<Rightarrow> pyval \<Rightarrow> pyval py" where
  "CacheBackend_cov_diag io self =
     py_then (CacheBackend_load_cov_diag io self) (getattr_plain self ''_cov_diag'')"

definition CacheBackend_cov_offdiag :: "io \<Rightarrow> pyval \<Rightarrow> pyval py" where
  "CacheBackend_cov_offdiag io self =
     py_then (CacheBackend_load_cov_offdiag io self) (getattr_plain self ''_cov_offdiag'')"

definition CacheBackend_grid :: "io \<Rightarrow> pyval \<Rightarrow> pyval py" where
  "CacheBackend_grid io self =
     py_then (CacheBackend_load_grid io self) (getattr_plain self ''_grid'')"

text \<open>The property \<^verbatim>\<open>header\<close> of lines 556 to 559: \<^verbatim>\<open>return self._grid.header\<close>.\<close>

definition CacheBackend_header :: "io \<Rightarrow> pyval \<Rightarrow> pyval py" where
  "CacheBackend_header io self =
     py_then (CacheBackend_load_grid io self)
       (py_bind (getattr_plain self ''_grid'') (\<lambda>g. obj_getattr g ''header''))"

definition CacheBackend_load_filters :: "io \<Rightarrow> pyval \<Rightarrow> unit py" where
  "CacheBackend_load_filters io self =
     py_bind (getattr_plain self ''_filters'') (\<lambda>cur.
       if cur \<noteq> PyNone then py_return ()
       else
         py_bind (getattr_plain self ''_type'') (\<lambda>t.
         py_bind
           (if t = PyStr ''fits'' then
              py_bind (fname_of self) (\<lambda>f.
              py_bind (py_lift (fits_header_get io f ''FILTERS'')) (\<lambda>try1.
              py_bind (py_lift (fits_header_get io f ''filters'')) (\<lambda>try2.
              py_return (try1, try2))))
            else if t = PyStr ''hdf'' then
              py_bind (CacheBackend_header io self) (\<lambda>h.
              py_bind (dict_get h ''FILTERS'') (\<lambda>try1.
              py_bind (CacheBackend_header io self) (\<lambda>h'.
              py_bind (dict_get h' ''filters'') (\<lambda>try2.
              py_return (try1, try2)))))
            else py_raise (UnboundLocalError ''try1''))
           (\<lambda>(try1, try2).
              py_then (setattr self ''_filters'' (py_or try1 try2))
                (if py_or try1 try2 \<noteq> PyNone
                 then py_bind (val_split (py_or try1 try2)) (setattr self ''_filters'')
                 else py_return ()))))"

definition CacheBackend_filters :: "io \<Rightarrow> pyval \<Rightarrow> pyval py" where
  "CacheBackend_filters io self =
     py_then (CacheBackend_load_filters io self) (getattr_plain self ''_filters'')"

subsection \<open>The properties of \<^verbatim>\<open>MemoryBackend\<close> and attribute access\<close>

definition list_items :: "pyval \<Rightarrow> pyval list py" where
  "list_items l s =
     (case obj_at s l of
        Some (ListObj vs) \<Rightarrow> (Inr vs, s)
      | _ \<Rightarrow> (Inl (TypeError ''not a list''), s))"

definition decode :: "pyval \<Rightarrow> pyval" where
  "decode v = (case v of PyBytes t \<Rightarrow> PyStr t | _ \<Rightarrow> v)"

definition MemoryBackend_filters :: "pyval \<Rightarrow> pyval py" where
  "MemoryBackend_filters self =
     py_bind (getattr_plain self ''_header'') (\<lambda>h.
     py_bind (dict_get h ''filters'') (\<lambda>a.
     py_bind (if truthy a then py_return a
              else py_bind (getattr_plain self ''_header'') (\<lambda>h'. dict_get h' ''FILTERS''))
       (\<lambda>r.
          if r = PyNone then py_return PyNone
          else
            py_bind (val_split r) (\<lambda>l.
            py_bind (list_items l) (\<lambda>vs.
              case vs of
                [] \<Rightarrow> py_raise (IndexError ''list index out of range'')
              | v # _ \<Rightarrow>
                  (case v of
                     PyBytes t \<Rightarrow> py_alloc (ListObj (map decode vs))
                   | _ \<Rightarrow> py_return l))))))"

text \<open>
  \<^verbatim>\<open>self.k\<close> for the names the backends read: the property of the class of \<open>self\<close> when
  it has one for \<open>k\<close>, else the entry of the attribute dictionary.
\<close>

definition get_attr :: "io \<Rightarrow> pyval \<Rightarrow> string \<Rightarrow> pyval py" where
  "get_attr io self k s =
     (case obj_at s self of
        Some (Instance c d) \<Rightarrow>
          (if c = CacheBackendC then
             (if k = ''seds'' then CacheBackend_seds io self s
              else if k = ''lamb'' then CacheBackend_lamb io self s
              else if k = ''cov_diag'' then CacheBackend_cov_diag io self s
              else if k = ''cov_offdiag'' then CacheBackend_cov_offdiag io self s
              else if k = ''grid'' then CacheBackend_grid io self s
              else if k = ''header'' then CacheBackend_header io self s
              else if k = ''filters'' then CacheBackend_filters io self s
              else getattr_plain self k s)
           else if k = ''header'' then
             (if c = HDFBackendC then hdf_header io self s else getattr_plain self ''_header'' s)
           else if k = ''filters'' then
             (if c = HDFBackendC then hdf_filters io self s
              else if c = MemoryBackendC then MemoryBackend_filters self s
              else getattr_plain self ''_filters'' s)
           else getattr_plain self k s)
      | _ \<Rightarrow> (Inl (AttributeError k), s))"

text \<open>\<^verbatim>\<open>getattr(self, k, default)\<close>: an \<^verbatim>\<open>AttributeError\<close> gives the default.\<close>

definition getattr_default :: "io \<Rightarrow> pyval \<Rightarrow> string \<Rightarrow> pyval \<Rightarrow> pyval py" where
  "getattr_default io self k dflt s =
     (case get_attr io self k s of
        (Inl (AttributeError n), s') \<Rightarrow> (Inr dflt, s')
      | r \<Rightarrow> r)"

subsection \<open>Writing\<close>

definition GridBackend_writeFITS :: "io \<Rightarrow> pyval \<Rightarrow> string \<Rightarrow> bool \<Rightarrow> written py" where
  "GridBackend_writeFITS io self fname overwrite =
     py_bind (get_attr io self ''lamb'') (\<lambda>l.
     py_bind (get_attr io self ''seds'') (\<lambda>sd.
     py_bind (get_attr io self ''grid'') (\<lambda>g.
       if l \<noteq> PyNone \<and> sd \<noteq> PyNone \<and> g \<noteq> PyNone then
         py_bind (get_attr io self ''grid'') (\<lambda>g1. (\<lambda>s.
           if \<not> is_Table s g1 then py_raise (TypeError ''Only astropy.Table are supported'') s
           else
            (py_bind (get_attr io self ''lamb'') (\<lambda>l1.
             py_bind (get_attr io self ''seds'') (\<lambda>sd1.
             py_bind (get_attr io self ''cov_diag'') (\<lambda>cd.
             py_bind (if cd \<noteq> PyNone
                      then py_bind (get_attr io self ''cov_diag'') (\<lambda>cd1.
                             py_return [ImageHDU cd1 ''covdiag''])
                      else py_return []) (\<lambda>h1.
             py_bind (get_attr io self ''cov_offdiag'') (\<lambda>co.
             py_bind (if co \<noteq> PyNone
                      then py_bind (get_attr io self ''cov_offdiag'') (\<lambda>co1.
                             py_return [ImageHDU co1 ''covoffdiag''])
                      else py_return []) (\<lambda>h2.
             py_bind (get_attr io self ''grid'') (\<lambda>g2.
               py_return (FitsWrite fname overwrite
                 ([PrimaryHDU l1, ImageHDU sd1 ''seds''] @ h1 @ h2
                  @ [BinTableHDU g2 ''grid''])))))))))) s))
       else py_raise (ValueError ''Full data set not specified (lamb, seds, grid)''))))"

text \<open>\<^verbatim>\<open>" ".join(l)\<close> for a list \<open>l\<close> of strings.\<close>

definition join_list :: "pyval \<Rightarrow> string py" where
  "join_list l =
     py_bind (list_items l) (\<lambda>vs.
       if list_all (\<lambda>v. case v of PyStr t \<Rightarrow> True | _ \<Rightarrow> False) vs
       then py_return (py_join '' '' (map (\<lambda>v. case v of PyStr t \<Rightarrow> t | _ \<Rightarrow> []) vs))
       else py_raise (TypeError ''sequence item: expected str instance''))"

text \<open>
  \<^verbatim>\<open>writeHDF\<close> of \<^verbatim>\<open>GridBackend\<close>. The file is opened with mode \<^verbatim>\<open>"w"\<close>, which makes it
  new and empty, so \<^verbatim>\<open>hd.keys()\<close> is empty at line 160. A slice \<^verbatim>\<open>a[:]\<close> is the array
  itself.
\<close>

definition GridBackend_writeHDF :: "io \<Rightarrow> pyval \<Rightarrow> string \<Rightarrow> bool \<Rightarrow> written py" where
  "GridBackend_writeHDF io self fname append' =
     py_bind (get_attr io self ''lamb'') (\<lambda>l.
     py_bind (get_attr io self ''seds'') (\<lambda>sd.
     py_bind (get_attr io self ''grid'') (\<lambda>g.
       if l \<noteq> PyNone \<and> sd \<noteq> PyNone \<and> g \<noteq> PyNone then
         py_bind (get_attr io self ''grid'') (\<lambda>g1. (\<lambda>s.
           if \<not> is_Table s g1 then py_raise (TypeError ''Only astropy.Table are supported'') s
           else
            (py_bind
               (if \<not> append' \<or> ''seds'' \<notin> set ([] :: string list) then
                  py_bind (get_attr io self ''seds'') (\<lambda>sd1.
                  py_bind (get_attr io self ''lamb'') (\<lambda>l1.
                  py_bind (get_attr io self ''cov_diag'') (\<lambda>cd.
                  py_bind (if cd \<noteq> PyNone
                           then py_bind (get_attr io self ''cov_diag'') (\<lambda>cd1.
                                  py_return [(''covdiag'', cd1)])
                           else py_return []) (\<lambda>d1.
                  py_bind (get_attr io self ''cov_offdiag'') (\<lambda>co.
                  py_bind (if co \<noteq> PyNone
                           then py_bind (get_attr io self ''cov_offdiag'') (\<lambda>co1.
                                  py_return [(''covoffdiag'', co1)])
                           else py_return []) (\<lambda>d2.
                    py_return ([(''seds'', sd1), (''lamb'', l1)] @ d1 @ d2)))))))
                else py_raise (Exception ''Appending to HDF5 file not supported (code needed)''))
               (\<lambda>datasets.
                py_bind (getattr_default io self ''filters'' PyNone) (\<lambda>f.
                py_then
                  (if f \<noteq> PyNone then
                     py_bind (get_attr io self ''header'') (\<lambda>h.
                     py_bind (dict_keys h) (\<lambda>ks.
                       if ''filters'' \<notin> set ks then
                         py_bind (get_attr io self ''filters'') (\<lambda>f1.
                         py_bind (join_list f1) (\<lambda>joined.
                         py_bind (get_attr io self ''header'') (\<lambda>h1.
                           dict_setitem h1 ''filters'' (PyStr joined))))
                       else py_return ()))
                   else py_return ())
                  (py_bind (get_attr io self ''header'') (\<lambda>h2.
                   py_bind (get_attr io self ''grid'') (\<lambda>g2.
                   py_then (table_set_meta g2 h2)
                  (py_bind (get_attr io self ''grid'') (\<lambda>g3.
                   py_return (HdfWrite fname datasets g3))))))))) s))
       else py_raise (ValueError ''Full data set not specified (lamb, seds, grid)''))))"

text \<open>
  \<^verbatim>\<open>writeHDF\<close> of \<^verbatim>\<open>HDFBackend\<close> (lines 667 to 697): the \<^verbatim>\<open>if\<close> of line 679 has no
  \<^verbatim>\<open>else\<close>.
\<close>

definition HDFBackend_writeHDF :: "io \<Rightarrow> pyval \<Rightarrow> string \<Rightarrow> bool \<Rightarrow> written py" where
  "HDFBackend_writeHDF io self fname append' =
     py_bind (get_attr io self ''lamb'') (\<lambda>l.
     py_bind (get_attr io self ''seds'') (\<lambda>sd.
     py_bind (get_attr io self ''grid'') (\<lambda>g.
       if l \<noteq> PyNone \<and> sd \<noteq> PyNone \<and> g \<noteq> PyNone
       then hdf_store_write io self fname append'
       else py_return NoWrite)))"

text \<open>\<^verbatim>\<open>self.writeHDF\<close>: the method of the class of \<open>self\<close>.\<close>

definition writeHDF :: "io \<Rightarrow> pyval \<Rightarrow> string \<Rightarrow> bool \<Rightarrow> written py" where
  "writeHDF io self fname append' s =
     (case obj_at s self of
        Some (Instance HDFBackendC d) \<Rightarrow> HDFBackend_writeHDF io self fname append' s
      | _ \<Rightarrow> GridBackend_writeHDF io self fname append' s)"

definition GridBackend_write :: "io \<Rightarrow> pyval \<Rightarrow> string \<Rightarrow> written py" where
  "GridBackend_write io self fname =
     py_bind (py_lift (get_type fname)) (\<lambda>t.
       if t = ''fits'' then GridBackend_writeFITS io self fname False
       else
         py_bind (py_lift (get_type fname)) (\<lambda>t'.
           if t' = ''hdf'' then writeHDF io self fname False
           else py_raise (ValueError (fname @ '' format not supported''))))"

subsection \<open>\<^verbatim>\<open>MemoryBackend\<close>\<close>

definition from_GridBackend :: "io \<Rightarrow> pyval \<Rightarrow> pyval \<Rightarrow> unit py" where
  "from_GridBackend io self b =
     py_then (py_bind (get_attr io b ''lamb'') (setattr self ''lamb''))
    (py_then (py_bind (get_attr io b ''seds'') (setattr self ''seds''))
    (py_then (py_bind (get_attr io b ''grid'') (setattr self ''grid''))
    (py_then (py_bind (getattr_plain b ''_filters'') (setattr self ''_filters''))
    (py_then (py_bind (get_attr io b ''header'') (setattr self ''_header''))
             (py_bind (getattr_plain b ''_aliases'') (setattr self ''_aliases''))))))"

text \<open>
  The old FITS format keeps the wavelengths in the last row of the primary array:
  \<^verbatim>\<open>f[0].data[:-1]\<close> and \<^verbatim>\<open>f[0].data[-1]\<close>.
\<close>

definition all_but_last :: "pyobj option \<Rightarrow> pyval py" where
  "all_but_last d =
     (case d of
        Some (Array2 rows) \<Rightarrow> py_alloc (Array2 (butlast rows))
      | Some (Array1 xs) \<Rightarrow> py_alloc (Array1 (butlast xs))
      | _ \<Rightarrow> py_raise (TypeError ''object is not subscriptable''))"

definition last_row :: "pyobj option \<Rightarrow> pyval py" where
  "last_row d =
     (case d of
        Some (Array2 rows) \<Rightarrow>
          if rows = [] then py_raise (IndexError ''index -1 is out of bounds'')
          else py_alloc (Array1 (last rows))
      | Some (Array1 xs) \<Rightarrow>
          if xs = [] then py_raise (IndexError ''index -1 is out of bounds'')
          else py_return (PyFloat (last xs))
      | _ \<Rightarrow> py_raise (TypeError ''object is not subscriptable''))"

definition from_File :: "io \<Rightarrow> pyval \<Rightarrow> string \<Rightarrow> unit py" where
  "from_File io self fname =
     py_bind (py_lift (get_type fname)) (\<lambda>t.
     py_then
       (if t = ''fits'' then
          py_bind (py_lift (fits_extnames io fname)) (\<lambda>extnames.
            if ''seds'' \<in> set extnames then
              py_then (py_bind (new_data (fits_data io fname None)) (setattr self ''lamb''))
             (py_then (py_bind (new_data (fits_data io fname (Some ''seds''))) (setattr self ''seds''))
             (py_then (if ''covdiag'' \<in> set extnames
                       then py_bind (new_data (fits_data io fname (Some ''covdiag'')))
                              (setattr self ''cov_diag'')
                       else setattr self ''cov_diag'' PyNone)
             (py_then (if ''covoffdiag'' \<in> set extnames
                       then py_bind (new_data (fits_data io fname (Some ''covoffdiag'')))
                              (setattr self ''cov_offdiag'')
                       else setattr self ''cov_offdiag'' PyNone)
                      (py_bind (new_table (fits_table io fname)) (setattr self ''grid'')))))
            else
              py_then (py_bind (py_lift (fits_data io fname None)) (\<lambda>d.
                       py_bind (all_but_last d) (setattr self ''seds'')))
             (py_then (py_bind (py_lift (fits_data io fname None)) (\<lambda>d.
                       py_bind (last_row d) (setattr self ''lamb'')))
                      (py_bind (new_table (table_read io fname)) (setattr self ''grid''))))
        else
          py_bind (py_lift (get_type fname)) (\<lambda>t'.
            if t' = ''hdf'' then
              py_then (py_bind (new_array (h5_data io fname ''seds'')) (setattr self ''seds''))
             (py_then (py_bind (new_array (h5_data io fname ''lamb'')) (setattr self ''lamb''))
             (py_then (py_bind (py_lift (h5_keys io fname)) (\<lambda>ks.
                         if ''covdiag'' \<in> set ks
                         then py_bind (new_array (h5_data io fname ''covdiag''))
                                (setattr self ''cov_diag'')
                         else setattr self ''cov_diag'' PyNone))
             (py_then (py_bind (py_lift (h5_keys io fname)) (\<lambda>ks.
                         if ''covdiag'' \<in> set ks
                         then py_bind (new_array (h5_data io fname ''covoffdiag''))
                                (setattr self ''cov_offdiag'')
                         else setattr self ''cov_offdiag'' PyNone))
                      (py_bind (new_table (table_read_hdf5 io fname)) (setattr self ''grid'')))))
            else py_return ()))
       (py_then
          (py_bind (get_attr io self ''grid'') (\<lambda>g.
           py_bind (obj_getattr g ''meta'') (setattr self ''_header'')))
          (py_bind (getattr_plain self ''_header'') (\<lambda>h.
           py_bind (dict_keys h) (\<lambda>ks.
             if ''filters'' \<in> set ks then
               py_bind (getattr_plain self ''_header'') (\<lambda>h1.
               py_bind (dict_get h1 ''filters'') (\<lambda>v.
                 case v of
                   PyBytes t \<Rightarrow>
                     py_bind (getattr_plain self ''_header'') (\<lambda>h2.
                       dict_setitem h2 ''filters'' (PyStr t))
                 | _ \<Rightarrow> py_return ()))
             else py_return ())))))"

text \<open>
  \<^verbatim>\<open>MemoryBackend.__init__\<close>. Line 279 calls \<^verbatim>\<open>self._fromHDFBackend\<close>, a name that no
  class defines (the method of line 186 is \<^verbatim>\<open>_from_HDFBackend\<close>).
  In the loop of lines 301 and 302 \<^verbatim>\<open>self.header\<close> is the attribute \<^verbatim>\<open>_header\<close>, which
  the loop does not change, so it is read once.

  Modelled from the spec: \<^verbatim>\<open>isNestedInstance\<close> of \<^verbatim>\<open>gridhelpers.py\<close>, which is not part
  of the sources: the test of line 280 holds when \<^verbatim>\<open>lamb\<close> is another grid instance, of
  any backend class.
\<close>

definition MemoryBackend_init ::
  "io \<Rightarrow> pyval \<Rightarrow> pyval \<Rightarrow> pyval \<Rightarrow> pyval \<Rightarrow> pyval \<Rightarrow> pyval \<Rightarrow> pyval \<Rightarrow> pyval \<Rightarrow> unit py" where
  "MemoryBackend_init io self lamb seds grid cov_diag cov_offdiag header aliases =
     py_then (GridBackend_init self)
    (py_then
       (\<lambda>s. case obj_at s lamb of
               Some (Instance HDFBackendC d) \<Rightarrow> py_raise (AttributeError ''_fromHDFBackend'') s
             | Some (Instance c d) \<Rightarrow> from_GridBackend io self lamb s
             | _ \<Rightarrow>
                 (case lamb of
                    PyStr f \<Rightarrow> from_File io self f s
                  | PyBytes f \<Rightarrow> py_raise (TypeError ''a bytes-like object is required'') s
                  | _ \<Rightarrow>
                      (if seds = PyNone \<or> grid = PyNone
                       then py_raise (ValueError ''Wrong number of arguments'')
                       else
                         py_then (setattr self ''lamb'' lamb)
                        (py_then (setattr self ''seds'' seds)
                        (py_then (setattr self ''grid'' grid)
                           (if cov_diag \<noteq> PyNone \<and> cov_offdiag \<noteq> PyNone then
                              py_then (setattr self ''cov_diag'' cov_diag)
                                      (setattr self ''cov_offdiag'' cov_offdiag)
                            else
                              py_then (setattr self ''cov_diag'' PyNone)
                                      (setattr self ''cov_offdiag'' PyNone))))) s))
    (py_then
       (py_bind (getattr_plain self ''_header'') (\<lambda>h.
          if h = PyNone then setattr self ''_header'' header
          else
            py_bind (dict_items header ''items'') (\<lambda>kvs.
            py_bind (get_attr io self ''header'') (\<lambda>h1. dict_update_all h1 kvs))))
    (py_then
       (py_bind (getattr_plain self ''_aliases'') (\<lambda>a.
        py_bind (dict_items aliases ''keys'') (\<lambda>kvs. dict_update_all a kvs)))
       (setattr self ''fname'' (PyStr '':memory:'')))))"

definition MemoryBackend_new ::
  "io \<Rightarrow> pyval \<Rightarrow> pyval \<Rightarrow> pyval \<Rightarrow> pyval \<Rightarrow> pyval \<Rightarrow> pyval \<Rightarrow> pyval \<Rightarrow> pyval py" where
  "MemoryBackend_new io lamb seds grid cov_diag cov_offdiag header aliases =
     py_bind (py_alloc (Instance MemoryBackendC [])) (\<lambda>self.
     py_then (MemoryBackend_init io self lamb seds grid cov_diag cov_offdiag header aliases)
             (py_return self))"

section \<open>Properties of the prior models\<close>

text \<open>
  C7. Constructing a prior model whose kind is outside the allow-list of the chosen physical
  quantity fails at once with a \<^verbatim>\<open>NotImplementedError\<close> whose message is
  "... is not an allowed model", and an allowed kind succeeds and stores the model: for
  each of the five quantities the outcome is decided by membership of the name in the list
  of that quantity. In particular a mass prior named \<open>lognormal\<close> is refused and a dust prior
  of that name is accepted (the instance below).
\<close>

theorem prior_allow_list:
  assumes "name m = Some n"
  shows "PriorModel_init m (Some allowed) =
           (if n \<in> set allowed then Inr m
            else Inl (NotImplementedError (n @ '' is not an allowed model'')))
       \<and> PriorDustModel_init m =
           (if n \<in> {''flat'', ''lognormal'', ''two_lognormal'', ''exponential''} then Inr m
            else Inl (NotImplementedError (n @ '' is not an allowed model'')))
       \<and> PriorAgeModel_init m =
           (if n \<in> {''flat'', ''flat_log'', ''bins_histo'', ''bins_interp'', ''exponential''}
            then Inr m else Inl (NotImplementedError (n @ '' is not an allowed model'')))
       \<and> PriorMassModel_init m =
           (if n \<in> {''flat'', ''salpeter'', ''kroupa''} then Inr m
            else Inl (NotImplementedError (n @ '' is not an allowed model'')))
       \<and> PriorMetallicityModel_init m =
           (if n = ''flat'' then Inr m
            else Inl (NotImplementedError (n @ '' is not an allowed model'')))
       \<and> PriorDistanceModel_init m =
           (if n = ''flat'' then Inr m
            else Inl (NotImplementedError (n @ '' is not an allowed model'')))"
  using assms
  by (simp add: PriorModel_init_def PriorDustModel_init_def PriorAgeModel_init_def
      PriorMassModel_init_def PriorMetallicityModel_init_def PriorDistanceModel_init_def)

theorem prior_allow_list_witness:
  "PriorMassModel_init \<lparr>name = Some ''lognormal'', scalars = Map.empty, arrays = Map.empty\<rparr>
     = Inl (NotImplementedError ''lognormal is not an allowed model'')
   \<and> PriorDustModel_init \<lparr>name = Some ''lognormal'', scalars = Map.empty, arrays = Map.empty\<rparr>
     = Inr \<lparr>name = Some ''lognormal'', scalars = Map.empty, arrays = Map.empty\<rparr>"
  using prior_allow_list [of "\<lparr>name = Some ''lognormal'', scalars = Map.empty, arrays = Map.empty\<rparr>"
      "''lognormal''" "[]"]
  by simp

text \<open>
  C1. The range check of \<^verbatim>\<open>bins_histo\<close> does not do what the claim says. For the
  break points \<open>[0, 10]\<close> with heights \<open>[1, 1]\<close> and the samples \<open>[2, 3]\<close>, both break
  points lie outside \<open>[min x, max x] = [2, 3]\<close>, yet no \<^verbatim>\<open>ValueError\<close> is raised: the
  test of lines 60 to 62 runs over the heights, asks for \<open>max x \<le> cval \<le> min x\<close> and raises
  only when every height passes, so here it is false, and the call goes on to the step
  interpolation and returns whatever that returns.
\<close>

theorem bins_histo_range_check_misses:
  "PriorModel_call L
     \<lparr>name = Some ''bins_histo'', scalars = Map.empty,
      arrays = [''x'' \<mapsto> [0, 10], ''values'' \<mapsto> [1, 1]]\<rparr> [2, 3]
   = (interp1d_zero L [0, 10] [1, 1] [2, 3],
      \<lparr>name = Some ''bins_histo'', scalars = Map.empty,
       arrays = [''x'' \<mapsto> [0, 10], ''values'' \<mapsto> [1, 1]]\<rparr>)"
  by (simp add: PriorModel_call_def array_def ebind_def np_all_def)







text \<open>Facts about the interpolation between control points with increasing abscissae.\<close>

lemma interp_from_at_first:
  "sorted_wrt (<) (map fst ((x0, y0) # ps)) \<Longrightarrow> interp_from ((x0, y0) # ps) x0 = y0"
  by (cases ps) auto

lemma interp_from_right:
  "ps \<noteq> [] \<Longrightarrow> sorted_wrt (<) (map fst ps) \<Longrightarrow> fst (last ps) \<le> v
   \<Longrightarrow> interp_from ps v = snd (last ps)"
proof (induction ps v rule: interp_from.induct)
  case (3 x0 y0 x1 y1 ps v)
  have "x1 \<le> fst (last ((x1, y1) # ps))"
    using "3.prems"(2) by (cases ps) (auto simp: less_imp_le)
  with "3.prems" have "\<not> v < x1" by simp
  with 3 show ?case by simp
qed simp_all

lemma interp_from_segment:
  "sorted_wrt (<) (map fst ps) \<Longrightarrow> i + 1 < length ps \<Longrightarrow> fst (ps ! i) \<le> v
   \<Longrightarrow> v \<le> fst (ps ! (i + 1))
   \<Longrightarrow> interp_from ps v =
       snd (ps ! i) + (snd (ps ! (i + 1)) - snd (ps ! i)) / (fst (ps ! (i + 1)) - fst (ps ! i))
         * (v - fst (ps ! i))"
proof (induction ps v arbitrary: i rule: interp_from.induct)
  case (3 x0 y0 x1 y1 ps v)
  show ?case
  proof (cases i)
    case 0
    show ?thesis
    proof (cases "v < x1")
      case True
      with 0 show ?thesis by simp
    next
      case False
      with 0 "3.prems" have v: "v = x1" by simp
      have "x0 < x1" using "3.prems"(1) by simp
      moreover have "interp_from ((x1, y1) # ps) x1 = y1"
        using "3.prems"(1) by (intro interp_from_at_first) simp
      ultimately show ?thesis using 0 v by simp
    qed
  next
    case (Suc j)
    have "x1 \<le> fst (((x1, y1) # ps) ! j)"
      using "3.prems"(1,2) Suc by (cases j) (auto simp: less_imp_le)
    with "3.prems"(3) Suc have nl: "\<not> v < x1" by simp
    have "interp_from ((x1, y1) # ps) v =
       snd (((x1, y1) # ps) ! j) + (snd (((x1, y1) # ps) ! (j + 1)) - snd (((x1, y1) # ps) ! j))
         / (fst (((x1, y1) # ps) ! (j + 1)) - fst (((x1, y1) # ps) ! j))
         * (v - fst (((x1, y1) # ps) ! j))"
      using "3.prems" Suc nl by (intro "3.IH") auto
    with nl Suc show ?thesis by simp
  qed
qed simp_all

lemma interp_point_left:
  "ps \<noteq> [] \<Longrightarrow> sorted_wrt (<) (map fst ps) \<Longrightarrow> v \<le> fst (hd ps) \<Longrightarrow> interp_point ps v = snd (hd ps)"
  by (cases ps) (auto simp: interp_from_at_first simp del: interp_from.simps)

lemma interp_point_from:
  "ps \<noteq> [] \<Longrightarrow> fst (hd ps) \<le> v \<Longrightarrow> interp_point ps v = interp_from ps v"
  by (cases ps) auto

text \<open>
  C6. A \<^verbatim>\<open>bins_interp\<close> model whose control points have strictly increasing abscissae
  returns, for every sample, the value of the piecewise-linear interpolant: the first control
  value at or below the first abscissa, the last control value at or above the last one
  (no extrapolation), and on each segment the value on the straight line between its two
  control points. For the control points \<open>x = [1, 2, 3]\<close>, \<open>values = [0, 10, 0]\<close> the samples
  \<open>[1, 1.5, 2, 2.5, 3]\<close> give \<open>[0, 5, 10, 5, 0]\<close> (the instance below).
\<close>

theorem bins_interp_piecewise_linear:
  assumes "name m = Some ''bins_interp''"
    and "arrays m ''x'' = Some xp" and "arrays m ''values'' = Some fp"
    and "length fp = length xp" and "xp \<noteq> []" and "sorted_wrt (<) xp"
  shows "\<exists>ws. fst (PriorModel_call L m x) = Inr (map Fin ws) \<and> length ws = length x \<and>
       (\<forall>j<length x.
          (x ! j \<le> hd xp \<longrightarrow> ws ! j = hd fp) \<and>
          (last xp \<le> x ! j \<longrightarrow> ws ! j = last fp) \<and>
          (\<forall>i. i + 1 < length xp \<longrightarrow> xp ! i \<le> x ! j \<longrightarrow> x ! j \<le> xp ! (i + 1) \<longrightarrow>
             ws ! j = fp ! i + (fp ! (i + 1) - fp ! i) / (xp ! (i + 1) - xp ! i) * (x ! j - xp ! i)))"
proof -
  let ?ps = "zip xp fp"
  let ?ws = "map (interp_point ?ps) x"
  have ne: "?ps \<noteq> []" using assms(4,5) by (cases xp; cases fp) auto
  have fsts: "map fst ?ps = xp" using assms(4) by (simp add: map_fst_zip)
  have srt: "sorted_wrt (<) (map fst ?ps)" using assms(6) fsts by simp
  have hd_ps: "hd ?ps = (hd xp, hd fp)" using assms(4,5) by (cases xp; cases fp) auto
  have last_ps: "last ?ps = (last xp, last fp)"
    using assms(4,5) by (intro last_zip) auto
  have call: "fst (PriorModel_call L m x) = Inr (map Fin ?ws)"
    using assms by (simp add: PriorModel_call_def array_def ebind_def np_interp_def)
  have "(v \<le> hd xp \<longrightarrow> interp_point ?ps v = hd fp) \<and>
        (last xp \<le> v \<longrightarrow> interp_point ?ps v = last fp) \<and>
        (\<forall>i. i + 1 < length xp \<longrightarrow> xp ! i \<le> v \<longrightarrow> v \<le> xp ! (i + 1) \<longrightarrow>
           interp_point ?ps v =
             fp ! i + (fp ! (i + 1) - fp ! i) / (xp ! (i + 1) - xp ! i) * (v - xp ! i))" for v
  proof (intro conjI allI impI)
    assume "v \<le> hd xp"
    then show "interp_point ?ps v = hd fp"
      using interp_point_left [OF ne srt, of v] hd_ps by simp
  next
    assume a: "last xp \<le> v"
    have "hd xp \<le> last xp"
      using assms(5,6) by (metis hd_conv_nth last_conv_nth length_greater_0_conv
          less_imp_le sorted_wrt_nth_less diff_less zero_less_one order_refl
          less_nat_zero_code neq0_conv)
    with a have "fst (hd ?ps) \<le> v" using hd_ps by simp
    then have "interp_point ?ps v = interp_from ?ps v" by (rule interp_point_from [OF ne])
    also have "\<dots> = snd (last ?ps)" using a last_ps by (intro interp_from_right [OF ne srt]) simp
    finally show "interp_point ?ps v = last fp" using last_ps by simp
  next
    fix i assume i: "i + 1 < length xp" and lo: "xp ! i \<le> v" and hi: "v \<le> xp ! (i + 1)"
    have "hd xp \<le> xp ! i"
    proof (cases i)
      case 0 then show ?thesis using assms(5) by (simp add: hd_conv_nth)
    next
      case (Suc k)
      then have "xp ! 0 < xp ! i" using assms(6) i by (intro sorted_wrt_nth_less) auto
      then show ?thesis using assms(5) by (simp add: hd_conv_nth)
    qed
    with lo have "fst (hd ?ps) \<le> v" using hd_ps by simp
    then have "interp_point ?ps v = interp_from ?ps v" by (rule interp_point_from [OF ne])
    also have "\<dots> = snd (?ps ! i) + (snd (?ps ! (i + 1)) - snd (?ps ! i))
         / (fst (?ps ! (i + 1)) - fst (?ps ! i)) * (v - fst (?ps ! i))"
      using i lo hi assms(4) by (intro interp_from_segment [OF srt]) auto
    finally show "interp_point ?ps v =
             fp ! i + (fp ! (i + 1) - fp ! i) / (xp ! (i + 1) - xp ! i) * (v - xp ! i)"
      using i assms(4) by simp
  qed
  then have "\<forall>j<length x.
          (x ! j \<le> hd xp \<longrightarrow> ?ws ! j = hd fp) \<and>
          (last xp \<le> x ! j \<longrightarrow> ?ws ! j = last fp) \<and>
          (\<forall>i. i + 1 < length xp \<longrightarrow> xp ! i \<le> x ! j \<longrightarrow> x ! j \<le> xp ! (i + 1) \<longrightarrow>
             ?ws ! j = fp ! i + (fp ! (i + 1) - fp ! i) / (xp ! (i + 1) - xp ! i) * (x ! j - xp ! i))"
    by simp
  with call show ?thesis by (intro exI [of _ ?ws]) simp
qed

theorem bins_interp_piecewise_linear_witness:
  "\<forall>L. fst (PriorModel_call L
       \<lparr>name = Some ''bins_interp'', scalars = Map.empty,
        arrays = [''x'' \<mapsto> [1, 2, 3], ''values'' \<mapsto> [0, 10, 0]]\<rparr> [1, 3 / 2, 2, 5 / 2, 3])
     = Inr [Fin 0, Fin 5, Fin 10, Fin 5, Fin 0]"
proof
  fix L
  let ?m = "\<lparr>name = Some ''bins_interp'', scalars = Map.empty,
        arrays = [''x'' \<mapsto> [1, 2, 3 :: real], ''values'' \<mapsto> [0, 10, 0 :: real]]\<rparr>"
  let ?x = "[1, 3 / 2, 2, 5 / 2, 3] :: real list"
  obtain ws where call: "fst (PriorModel_call L ?m ?x) = Inr (map Fin ws)"
    and len: "length ws = 5"
    and pts: "\<forall>j<5.
          (?x ! j \<le> 1 \<longrightarrow> ws ! j = 0) \<and>
          (3 \<le> ?x ! j \<longrightarrow> ws ! j = 0) \<and>
          (\<forall>i. i + 1 < 3 \<longrightarrow> [1, 2, 3] ! i \<le> ?x ! j \<longrightarrow> ?x ! j \<le> [1, 2, 3] ! (i + 1) \<longrightarrow>
             ws ! j = [0, 10, 0] ! i + ([0, 10, 0] ! (i + 1) - [0, 10, 0] ! i)
                        / ([1, 2, 3] ! (i + 1) - [1, 2, 3] ! i) * (?x ! j - [1, 2, 3] ! i))"
    using bins_interp_piecewise_linear [of ?m "[1, 2, 3]" "[0, 10, 0]" L ?x] by auto
  have w0: "ws ! 0 = 0" using pts [rule_format, of 0] by simp
  have w1: "ws ! 1 = 5" using pts [rule_format, of 1, THEN conjunct2, THEN conjunct2, rule_format, of 0] by simp
  have w2: "ws ! 2 = 10" using pts [rule_format, of 2, THEN conjunct2, THEN conjunct2, rule_format, of 0] by simp
  have w3: "ws ! 3 = 5" using pts [rule_format, of 3, THEN conjunct2, THEN conjunct2, rule_format, of 1] by simp
  have w4: "ws ! 4 = 0" using pts [rule_format, of 4] by simp
  have "ws = [0, 5, 10, 5, 0]"
    using len w0 w1 w2 w3 w4
    by (auto simp: list_eq_iff_nth_eq less_Suc_eq numeral_eq_Suc)
  with call show "fst (PriorModel_call L ?m ?x) = Inr [Fin 0, Fin 5, Fin 10, Fin 5, Fin 0]"
    by simp
qed


















section \<open>Properties of the grid backends\<close>

text \<open>The last segment of a file name.\<close>

lemma py_split_nonempty: "py_split sep cs \<noteq> []"
  by (induction cs) (auto split: list.splits)

lemma py_split_no_sep: "sep \<notin> set w \<Longrightarrow> py_split sep w = [w]"
  by (induction w) auto

lemma py_split_two: "2 \<le> length (py_split sep (base @ sep # ext))"
  using py_split_nonempty [of sep ext]
  by (induction base) (auto split: list.splits simp: Suc_le_eq)

lemma last_py_split_append:
  "last (py_split sep (base @ sep # ext)) = last (py_split sep ext)"
proof (induction base)
  case Nil
  then show ?case by (simp add: py_split_nonempty)
next
  case (Cons c base)
  obtain w v ws where ws: "py_split sep (base @ sep # ext) = w # v # ws"
    using py_split_two [of sep base ext]
    by (cases "py_split sep (base @ sep # ext)" rule: list.exhaust;
        cases "tl (py_split sep (base @ sep # ext))") auto
  with Cons show ?case by auto
qed

lemma trailing_segment:
  "CHR ''.'' \<notin> set ext \<Longrightarrow> last (py_split CHR ''.'' (base @ ''.'' @ ext)) = ext"
  by (simp add: last_py_split_append py_split_no_sep)

lemma get_type_cases:
  "get_type fname =
     (if last (py_split CHR ''.'' fname) = ''fits'' then Inr ''fits''
      else if last (py_split CHR ''.'' fname) \<in> {''hdf'', ''hd5'', ''hdf5''} then Inr ''hdf''
      else Inl (ValueError (last (py_split CHR ''.'' fname) @ '' file type not supported'')))"
  by (simp add: get_type_def Let_def)

text \<open>
  C8. The file type is decided by the text after the last dot of the file name, compared
  case-sensitively: for a name \<open>base.ext\<close> whose \<open>ext\<close> has no dot, \<^verbatim>\<open>write\<close> calls the FITS
  writer when \<open>ext\<close> is \<^verbatim>\<open>fits\<close>, the HDF writer of the class of the grid when \<open>ext\<close> is
  \<^verbatim>\<open>hdf\<close>, \<^verbatim>\<open>hd5\<close> or \<^verbatim>\<open>hdf5\<close>, and otherwise raises, for a grid of any class and in
  any store, a \<^verbatim>\<open>ValueError\<close> whose message starts with \<open>ext\<close>.
\<close>

theorem write_dispatch:
  assumes "CHR ''.'' \<notin> set ext"
  shows "get_type (base @ ''.'' @ ext) =
           (if ext = ''fits'' then Inr ''fits''
            else if ext \<in> {''hdf'', ''hd5'', ''hdf5''} then Inr ''hdf''
            else Inl (ValueError (ext @ '' file type not supported'')))
       \<and> GridBackend_write io self (base @ ''.'' @ ext) s =
           (if ext = ''fits'' then GridBackend_writeFITS io self (base @ ''.'' @ ext) False s
            else if ext \<in> {''hdf'', ''hd5'', ''hdf5''}
              then writeHDF io self (base @ ''.'' @ ext) False s
            else (Inl (ValueError (ext @ '' file type not supported'')), s))"
  using trailing_segment [OF assms, of base]
  by (auto simp: GridBackend_write_def get_type_cases py_bind_def py_lift_def py_raise_def)

theorem write_dispatch_witness:
  "\<forall>io self s. GridBackend_write io self ''model.xyz'' s
       = (Inl (ValueError ''xyz file type not supported''), s)
     \<and> GridBackend_write io self ''model.FITS'' s
       = (Inl (ValueError ''FITS file type not supported''), s)
     \<and> GridBackend_write io self ''model.v2.fits'' s
       = GridBackend_writeFITS io self ''model.v2.fits'' False s
     \<and> GridBackend_write io self ''model.hd5'' s = writeHDF io self ''model.hd5'' False s"
  using write_dispatch [of "''xyz''" "''model''"] write_dispatch [of "''FITS''" "''model''"]
    write_dispatch [of "''fits''" "''model.v2''"] write_dispatch [of "''hd5''" "''model''"]
  by simp

text \<open>Evaluating the operations on the store.\<close>

lemma dict_update_all_dict:
  "a < length s \<Longrightarrow> s ! a = DictObj kvs \<Longrightarrow>
   dict_update_all (PyRef a) new s =
     (Inr (), s[a := DictObj (fold (\<lambda>(k, v). AList.update k v) new kvs)])"
proof (induction new arbitrary: s kvs)
  case Nil
  then show ?case by (simp add: py_return_def) (metis list_update_id)
next
  case (Cons p new)
  obtain k v where p: "p = (k, v)" by (cases p)
  let ?s1 = "s[a := DictObj (AList.update k v kvs)]"
  have 1: "dict_setitem (PyRef a) k v s = (Inr (), ?s1)"
    using Cons.prems by (simp add: dict_setitem_def obj_at_def obj_put_def)
  have "a < length ?s1" "?s1 ! a = DictObj (AList.update k v kvs)" using Cons.prems by simp_all
  from Cons.IH [OF this] have
    "dict_update_all (PyRef a) new ?s1 =
       (Inr (), ?s1[a := DictObj (fold (\<lambda>(k, v). AList.update k v) new (AList.update k v kvs))])" .
  then show ?case using p 1 by (simp add: py_then_def py_bind_def)
qed

lemma dict_update_all_eval:
  "dict_update_all d new s =
     (case obj_at s d of
        Some (DictObj kvs) \<Rightarrow>
          (case d of PyRef a \<Rightarrow> (Inr (), s[a := DictObj (fold (\<lambda>(k, v). AList.update k v) new kvs)])
           | _ \<Rightarrow> (Inr (), s))
      | _ \<Rightarrow> if new = [] then (Inr (), s)
             else (Inl (TypeError ''object does not support item assignment''), s))"
proof (cases "\<exists>kvs. obj_at s d = Some (DictObj kvs)")
  case True
  then obtain kvs where k: "obj_at s d = Some (DictObj kvs)" by blast
  then obtain a where a: "d = PyRef a" "a < length s" "s ! a = DictObj kvs"
    by (auto simp: obj_at_def split: pyval.splits if_splits)
  show ?thesis using dict_update_all_dict [OF a(2,3), of new] k a by simp
next
  case False
  then show ?thesis
    by (cases new) (auto simp: py_return_def py_then_def py_bind_def dict_setitem_def
        split: option.splits pyobj.splits)
qed

lemmas store_simps = py_then_def py_bind_def py_return_def py_raise_def py_alloc_def py_lift_def
  setattr_def getattr_plain_def obj_at_def obj_put_def nth_append list_update_append
  dict_items_def dict_update_all_eval

text \<open>
  The grid that \<^verbatim>\<open>MemoryBackend(lamb, seds, grid, cov_diag, cov_offdiag, header, aliases)\<close>
  builds from a wavelength array: the new instance and its new dictionary of aliases are the
  last two objects of the store.
\<close>

lemma MemoryBackend_new_arrays:
  assumes lamb: "la < length s" "s ! la = Array1 w"
    and al: "al < length s" "s ! al = DictObj akvs"
    and args: "seds \<noteq> PyNone" "grid \<noteq> PyNone"
  shows "MemoryBackend_new io (PyRef la) seds grid cov_diag cov_offdiag header (PyRef al) s =
     (Inr (PyRef (length s)),
      s @ [Instance MemoryBackendC
             [(''_filters'', PyNone), (''_header'', header), (''fname'', PyStr '':memory:''),
              (''_aliases'', PyRef (Suc (length s))), (''lamb'', PyRef la), (''seds'', seds),
              (''grid'', grid),
              (''cov_diag'', if cov_diag \<noteq> PyNone \<and> cov_offdiag \<noteq> PyNone then cov_diag else PyNone),
              (''cov_offdiag'', if cov_diag \<noteq> PyNone \<and> cov_offdiag \<noteq> PyNone then cov_offdiag else PyNone)],
           DictObj (fold (\<lambda>(k, v). AList.update k v) akvs [])])"
  using assms
  by (simp add: MemoryBackend_new_def MemoryBackend_init_def GridBackend_init_def store_simps)

text \<open>
  C10. A \<^verbatim>\<open>MemoryBackend\<close> built from raw arrays (a wavelength array, and \<^verbatim>\<open>seds\<close> and
  \<^verbatim>\<open>grid\<close> given) is built without an error whatever the two covariance arguments are;
  both covariance fields are \<^verbatim>\<open>None\<close> as soon as one of the two arguments is \<^verbatim>\<open>None\<close>,
  they hold the two arguments when both are given, and so one field is \<^verbatim>\<open>None\<close> exactly
  when the other is.
\<close>

theorem cov_fields_both_or_neither:
  assumes "obj_at s lamb = Some (Array1 w)" and "obj_at s aliases = Some (DictObj akvs)"
    and "seds \<noteq> PyNone" and "grid \<noteq> PyNone"
  shows "\<exists>self s' cd co.
           MemoryBackend_new io lamb seds grid cov_diag cov_offdiag header aliases s = (Inr self, s')
         \<and> getattr_plain self ''cov_diag'' s' = (Inr cd, s')
         \<and> getattr_plain self ''cov_offdiag'' s' = (Inr co, s')
         \<and> (cd = PyNone \<longleftrightarrow> co = PyNone)
         \<and> (cov_diag = PyNone \<or> cov_offdiag = PyNone \<longrightarrow> cd = PyNone \<and> co = PyNone)
         \<and> (cov_diag \<noteq> PyNone \<and> cov_offdiag \<noteq> PyNone \<longrightarrow> cd = cov_diag \<and> co = cov_offdiag)"
proof -
  obtain la where la: "lamb = PyRef la" "la < length s" "s ! la = Array1 w"
    using assms(1) by (auto simp: obj_at_def split: pyval.splits if_splits)
  obtain al where al: "aliases = PyRef al" "al < length s" "s ! al = DictObj akvs"
    using assms(2) by (auto simp: obj_at_def split: pyval.splits if_splits)
  show ?thesis
    unfolding la(1) al(1) MemoryBackend_new_arrays [OF la(2,3) al(2,3) assms(3,4)]
    by (auto simp: getattr_plain_def obj_at_def)
qed

theorem cov_fields_both_or_neither_witness:
  "\<forall>io. \<exists>self s'.
      MemoryBackend_new io (PyRef 0) (PyRef 1) (PyRef 3) (PyRef 4) PyNone (PyRef 2) (PyRef 5)
        [Array1 [1, 2], Array2 [[3, 4]], DictObj [], TableObj [(''M_ini'', [1])] (PyRef 2),
         Array2 [[5, 6]], DictObj []] = (Inr self, s')
    \<and> getattr_plain self ''cov_diag'' s' = (Inr PyNone, s')
    \<and> getattr_plain self ''cov_offdiag'' s' = (Inr PyNone, s')"
proof
  fix io
  let ?s = "[Array1 [1, 2], Array2 [[3, 4]], DictObj [], TableObj [(''M_ini'', [1])] (PyRef 2),
         Array2 [[5, 6]], DictObj []]"
  have "obj_at ?s (PyRef 0) = Some (Array1 [1, 2])" "obj_at ?s (PyRef 5) = Some (DictObj [])"
    "PyRef 1 \<noteq> PyNone" "PyRef 3 \<noteq> PyNone"
    by (simp_all add: obj_at_def)
  from cov_fields_both_or_neither [OF this, of io "PyRef 4" PyNone "PyRef 2"]
  show "\<exists>self s'.
      MemoryBackend_new io (PyRef 0) (PyRef 1) (PyRef 3) (PyRef 4) PyNone (PyRef 2) (PyRef 5) ?s
        = (Inr self, s')
    \<and> getattr_plain self ''cov_diag'' s' = (Inr PyNone, s')
    \<and> getattr_plain self ''cov_offdiag'' s' = (Inr PyNone, s')"
    by auto
qed

text \<open>
  C9, the claim as made. The HDF writer of \<^verbatim>\<open>HDFBackend\<close> is a writer too, and it neither
  raises for missing data nor checks the type of the parameter table: with \<^verbatim>\<open>seds\<close> set to
  \<^verbatim>\<open>None\<close> it returns without writing and without an error, also through \<^verbatim>\<open>write\<close>; with
  all three fields present and a parameter table that is a node of the store, not a
  \<^verbatim>\<open>Table\<close>, it goes on to the writes of the store.
\<close>

theorem hdf_writer_counterexample:
  "\<forall>io. writeHDF io (PyRef 0) ''grid.hd5'' False
           [Instance HDFBackendC [(''lamb'', PyRef 1), (''seds'', PyNone), (''grid'', PyRef 2)],
            StoreNode ''/lamb'', StoreNode ''/grid'']
        = (Inr NoWrite,
           [Instance HDFBackendC [(''lamb'', PyRef 1), (''seds'', PyNone), (''grid'', PyRef 2)],
            StoreNode ''/lamb'', StoreNode ''/grid''])
      \<and> GridBackend_write io (PyRef 0) ''grid.hd5''
           [Instance HDFBackendC [(''lamb'', PyRef 1), (''seds'', PyNone), (''grid'', PyRef 2)],
            StoreNode ''/lamb'', StoreNode ''/grid'']
        = (Inr NoWrite,
           [Instance HDFBackendC [(''lamb'', PyRef 1), (''seds'', PyNone), (''grid'', PyRef 2)],
            StoreNode ''/lamb'', StoreNode ''/grid''])
      \<and> writeHDF io (PyRef 0) ''grid.hd5'' False
           [Instance HDFBackendC [(''lamb'', PyRef 1), (''seds'', PyRef 3), (''grid'', PyRef 2)],
            StoreNode ''/lamb'', StoreNode ''/grid'', StoreNode ''/seds'']
        = hdf_store_write io (PyRef 0) ''grid.hd5'' False
           [Instance HDFBackendC [(''lamb'', PyRef 1), (''seds'', PyRef 3), (''grid'', PyRef 2)],
            StoreNode ''/lamb'', StoreNode ''/grid'', StoreNode ''/seds'']"
  by (simp add: writeHDF_def HDFBackend_writeHDF_def GridBackend_write_def get_type_def
      get_attr_def store_simps)

text \<open>What a Full-Memory grid built without covariance terms hands to the two libraries.\<close>

lemma memory_grid_writes:
  assumes lamb: "la < length s" "s ! la = Array1 w"
    and al: "al < length s" "s ! al = DictObj akvs"
    and sd: "seds \<noteq> PyNone"
    and g: "ga < length s" "s ! ga = TableObj cols m"
    and h: "h < length s" "s ! h = DictObj hkvs" "map_of hkvs ''filters'' = None"
      "map_of hkvs ''FILTERS'' = None"
  shows "fst (py_bind (MemoryBackend_new io (PyRef la) seds (PyRef ga) PyNone PyNone (PyRef h) (PyRef al))
                (\<lambda>self. GridBackend_writeFITS io self fname ov) s)
          = Inr (FitsWrite fname ov
                   [PrimaryHDU (PyRef la), ImageHDU seds ''seds'', BinTableHDU (PyRef ga) ''grid''])"
    and "fst (py_bind (MemoryBackend_new io (PyRef la) seds (PyRef ga) PyNone PyNone (PyRef h) (PyRef al))
                (\<lambda>self. GridBackend_writeHDF io self fname ap) s)
          = Inr (HdfWrite fname [(''seds'', seds), (''lamb'', PyRef la)] (PyRef ga))"
proof -
  have new: "MemoryBackend_new io (PyRef la) seds (PyRef ga) PyNone PyNone (PyRef h) (PyRef al) s =
     (Inr (PyRef (length s)),
      s @ [Instance MemoryBackendC
             [(''_filters'', PyNone), (''_header'', PyRef h), (''fname'', PyStr '':memory:''),
              (''_aliases'', PyRef (Suc (length s))), (''lamb'', PyRef la), (''seds'', seds),
              (''grid'', PyRef ga), (''cov_diag'', PyNone), (''cov_offdiag'', PyNone)],
           DictObj (fold (\<lambda>(k, v). AList.update k v) akvs [])])"
    using MemoryBackend_new_arrays [OF lamb al sd, of "PyRef ga" io PyNone PyNone "PyRef h"]
    by simp
  show "fst (py_bind (MemoryBackend_new io (PyRef la) seds (PyRef ga) PyNone PyNone (PyRef h) (PyRef al))
                (\<lambda>self. GridBackend_writeFITS io self fname ov) s)
          = Inr (FitsWrite fname ov
                   [PrimaryHDU (PyRef la), ImageHDU seds ''seds'', BinTableHDU (PyRef ga) ''grid''])"
    using sd g
    by (simp add: py_bind_def [of "MemoryBackend_new _ _ _ _ _ _ _ _"] new GridBackend_writeFITS_def
        get_attr_def is_Table_def store_simps)
  show "fst (py_bind (MemoryBackend_new io (PyRef la) seds (PyRef ga) PyNone PyNone (PyRef h) (PyRef al))
                (\<lambda>self. GridBackend_writeHDF io self fname ap) s)
          = Inr (HdfWrite fname [(''seds'', seds), (''lamb'', PyRef la)] (PyRef ga))"
    using sd g h
    by (simp add: py_bind_def [of "MemoryBackend_new _ _ _ _ _ _ _ _"] new GridBackend_writeHDF_def
        get_attr_def is_Table_def store_simps getattr_default_def MemoryBackend_filters_def
        dict_get_def truthy_def table_set_meta_def)
qed

text \<open>
  C9, amended. The FITS writer and the HDF writer of \<^verbatim>\<open>GridBackend\<close> (the writers of the
  Full-Memory and the Lazy-Cached grids) raise the \<^verbatim>\<open>ValueError\<close> as soon as one of
  \<^verbatim>\<open>lamb\<close>, \<^verbatim>\<open>seds\<close> and \<^verbatim>\<open>grid\<close> reads as \<^verbatim>\<open>None\<close>, and the \<^verbatim>\<open>TypeError\<close> when
  the three are present and \<^verbatim>\<open>grid\<close> is not a \<^verbatim>\<open>Table\<close>. A Full-Memory grid built from
  arrays without covariance terms, with a header that names no filters, raises nothing when
  written: the FITS writer hands over the primary, \<^verbatim>\<open>seds\<close> and \<^verbatim>\<open>grid\<close> HDUs only, the
  HDF writer the datasets \<^verbatim>\<open>seds\<close> and \<^verbatim>\<open>lamb\<close> and the table only.
\<close>

theorem grid_writers_need_full_data:
  "(get_attr io self ''lamb'' s = (Inr l, s1) \<and> get_attr io self ''seds'' s1 = (Inr sd, s2)
     \<and> get_attr io self ''grid'' s2 = (Inr g, s3) \<and> (l = PyNone \<or> sd = PyNone \<or> g = PyNone)
    \<longrightarrow> GridBackend_writeFITS io self fname ov s
          = (Inl (ValueError ''Full data set not specified (lamb, seds, grid)''), s3)
      \<and> GridBackend_writeHDF io self fname ap s
          = (Inl (ValueError ''Full data set not specified (lamb, seds, grid)''), s3))
 \<and> (get_attr io self ''lamb'' s = (Inr l, s1) \<and> get_attr io self ''seds'' s1 = (Inr sd, s2)
     \<and> get_attr io self ''grid'' s2 = (Inr g, s3) \<and> l \<noteq> PyNone \<and> sd \<noteq> PyNone \<and> g \<noteq> PyNone
     \<and> get_attr io self ''grid'' s3 = (Inr g1, s4) \<and> \<not> is_Table s4 g1
    \<longrightarrow> GridBackend_writeFITS io self fname ov s
          = (Inl (TypeError ''Only astropy.Table are supported''), s4)
      \<and> GridBackend_writeHDF io self fname ap s
          = (Inl (TypeError ''Only astropy.Table are supported''), s4))
 \<and> (la < length s \<and> s ! la = Array1 w \<and> al < length s \<and> s ! al = DictObj akvs
     \<and> seds \<noteq> PyNone \<and> ga < length s \<and> s ! ga = TableObj cols m
     \<and> h < length s \<and> s ! h = DictObj hkvs
     \<and> map_of hkvs ''filters'' = None \<and> map_of hkvs ''FILTERS'' = None
    \<longrightarrow> fst (py_bind (MemoryBackend_new io (PyRef la) seds (PyRef ga) PyNone PyNone
                        (PyRef h) (PyRef al))
                (\<lambda>new. GridBackend_writeFITS io new fname ov) s)
          = Inr (FitsWrite fname ov
                   [PrimaryHDU (PyRef la), ImageHDU seds ''seds'', BinTableHDU (PyRef ga) ''grid''])
      \<and> fst (py_bind (MemoryBackend_new io (PyRef la) seds (PyRef ga) PyNone PyNone
                        (PyRef h) (PyRef al))
                (\<lambda>new. GridBackend_writeHDF io new fname ap) s)
          = Inr (HdfWrite fname [(''seds'', seds), (''lamb'', PyRef la)] (PyRef ga)))"
proof (intro conjI impI)
  assume a: "get_attr io self ''lamb'' s = (Inr l, s1) \<and> get_attr io self ''seds'' s1 = (Inr sd, s2)
     \<and> get_attr io self ''grid'' s2 = (Inr g, s3) \<and> (l = PyNone \<or> sd = PyNone \<or> g = PyNone)"
  then show "GridBackend_writeFITS io self fname ov s
          = (Inl (ValueError ''Full data set not specified (lamb, seds, grid)''), s3)"
    by (auto simp: GridBackend_writeFITS_def py_bind_def py_raise_def)
  from a show "GridBackend_writeHDF io self fname ap s
          = (Inl (ValueError ''Full data set not specified (lamb, seds, grid)''), s3)"
    by (auto simp: GridBackend_writeHDF_def py_bind_def py_raise_def)
next
  assume b: "get_attr io self ''lamb'' s = (Inr l, s1) \<and> get_attr io self ''seds'' s1 = (Inr sd, s2)
     \<and> get_attr io self ''grid'' s2 = (Inr g, s3) \<and> l \<noteq> PyNone \<and> sd \<noteq> PyNone \<and> g \<noteq> PyNone
     \<and> get_attr io self ''grid'' s3 = (Inr g1, s4) \<and> \<not> is_Table s4 g1"
  then show "GridBackend_writeFITS io self fname ov s
          = (Inl (TypeError ''Only astropy.Table are supported''), s4)"
    by (auto simp: GridBackend_writeFITS_def py_bind_def py_raise_def)
  from b show "GridBackend_writeHDF io self fname ap s
          = (Inl (TypeError ''Only astropy.Table are supported''), s4)"
    by (auto simp: GridBackend_writeHDF_def py_bind_def py_raise_def)
next
  assume c: "la < length s \<and> s ! la = Array1 w \<and> al < length s \<and> s ! al = DictObj akvs
     \<and> seds \<noteq> PyNone \<and> ga < length s \<and> s ! ga = TableObj cols m
     \<and> h < length s \<and> s ! h = DictObj hkvs
     \<and> map_of hkvs ''filters'' = None \<and> map_of hkvs ''FILTERS'' = None"
  then show "fst (py_bind (MemoryBackend_new io (PyRef la) seds (PyRef ga) PyNone PyNone
                        (PyRef h) (PyRef al))
                (\<lambda>new. GridBackend_writeFITS io new fname ov) s)
          = Inr (FitsWrite fname ov
                   [PrimaryHDU (PyRef la), ImageHDU seds ''seds'', BinTableHDU (PyRef ga) ''grid''])"
    by (intro memory_grid_writes(1)) auto
  from c show "fst (py_bind (MemoryBackend_new io (PyRef la) seds (PyRef ga) PyNone PyNone
                        (PyRef h) (PyRef al))
                (\<lambda>new. GridBackend_writeHDF io new fname ap) s)
          = Inr (HdfWrite fname [(''seds'', seds), (''lamb'', PyRef la)] (PyRef ga))"
    by (intro memory_grid_writes(2)) auto
qed

theorem grid_writers_need_full_data_witness:
  "\<forall>io.
     GridBackend_writeFITS io (PyRef 0) ''grid.fits'' False
       [Instance MemoryBackendC [(''lamb'', PyRef 1), (''seds'', PyNone), (''grid'', PyRef 2)],
        Array1 [1, 2], TableObj [] PyNone]
     = (Inl (ValueError ''Full data set not specified (lamb, seds, grid)''),
        [Instance MemoryBackendC [(''lamb'', PyRef 1), (''seds'', PyNone), (''grid'', PyRef 2)],
         Array1 [1, 2], TableObj [] PyNone])
   \<and> GridBackend_writeHDF io (PyRef 0) ''grid.hd5'' False
       [Instance MemoryBackendC [(''lamb'', PyRef 1), (''seds'', PyRef 1), (''grid'', PyRef 1)],
        Array1 [1, 2]]
     = (Inl (TypeError ''Only astropy.Table are supported''),
        [Instance MemoryBackendC [(''lamb'', PyRef 1), (''seds'', PyRef 1), (''grid'', PyRef 1)],
         Array1 [1, 2]])
   \<and> fst (py_bind (MemoryBackend_new io (PyRef 0) (PyRef 1) (PyRef 3) PyNone PyNone
                     (PyRef 2) (PyRef 4))
             (\<lambda>new. GridBackend_writeFITS io new ''grid.fits'' False)
             [Array1 [1, 2], Array2 [[3, 4]], DictObj [], TableObj [(''M_ini'', [1])] (PyRef 2),
              DictObj []])
     = Inr (FitsWrite ''grid.fits'' False
              [PrimaryHDU (PyRef 0), ImageHDU (PyRef 1) ''seds'', BinTableHDU (PyRef 3) ''grid''])"
proof
  fix io
  let ?s0 = "[Instance MemoryBackendC [(''lamb'', PyRef 1), (''seds'', PyNone), (''grid'', PyRef 2)],
        Array1 [1, 2], TableObj [] PyNone]"
  let ?s1 = "[Instance MemoryBackendC [(''lamb'', PyRef 1), (''seds'', PyRef 1), (''grid'', PyRef 1)],
        Array1 [1, 2]]"
  let ?s2 = "[Array1 [1, 2], Array2 [[3, 4]], DictObj [], TableObj [(''M_ini'', [1])] (PyRef 2),
              DictObj []]"
  have g0: "get_attr io (PyRef 0) ''lamb'' ?s0 = (Inr (PyRef 1), ?s0)"
    "get_attr io (PyRef 0) ''seds'' ?s0 = (Inr PyNone, ?s0)"
    "get_attr io (PyRef 0) ''grid'' ?s0 = (Inr (PyRef 2), ?s0)"
    by (simp_all add: get_attr_def store_simps)
  have g1: "get_attr io (PyRef 0) ''lamb'' ?s1 = (Inr (PyRef 1), ?s1)"
    "get_attr io (PyRef 0) ''seds'' ?s1 = (Inr (PyRef 1), ?s1)"
    "get_attr io (PyRef 0) ''grid'' ?s1 = (Inr (PyRef 1), ?s1)"
    "\<not> is_Table ?s1 (PyRef 1)"
    by (simp_all add: get_attr_def is_Table_def store_simps)
  have 1: "GridBackend_writeFITS io (PyRef 0) ''grid.fits'' False ?s0
     = (Inl (ValueError ''Full data set not specified (lamb, seds, grid)''), ?s0)"
    using grid_writers_need_full_data [of io "PyRef 0" ?s0 "PyRef 1" ?s0 PyNone ?s0 "PyRef 2" ?s0
        "''grid.fits''" False] g0
    by simp
  have 2: "GridBackend_writeHDF io (PyRef 0) ''grid.hd5'' False ?s1
     = (Inl (TypeError ''Only astropy.Table are supported''), ?s1)"
    using grid_writers_need_full_data [of io "PyRef 0" ?s1 "PyRef 1" ?s1 "PyRef 1" ?s1 "PyRef 1" ?s1
        "''grid.hd5''" False False "PyRef 1" ?s1] g1
    by simp
  have 3: "fst (py_bind (MemoryBackend_new io (PyRef 0) (PyRef 1) (PyRef 3) PyNone PyNone
                     (PyRef 2) (PyRef 4))
             (\<lambda>new. GridBackend_writeFITS io new ''grid.fits'' False) ?s2)
     = Inr (FitsWrite ''grid.fits'' False
              [PrimaryHDU (PyRef 0), ImageHDU (PyRef 1) ''seds'', BinTableHDU (PyRef 3) ''grid''])"
    using grid_writers_need_full_data [where s = ?s2 and la = 0 and al = 4 and ga = 3 and h = 2
        and seds = "PyRef 1" and io = io and fname = "''grid.fits''" and ov = False
        and w = "[1, 2]" and akvs = "[]" and cols = "[(''M_ini'', [1])]" and m = "PyRef 2"
        and hkvs = "[]"]
    by simp
  from 1 2 3 show "GridBackend_writeFITS io (PyRef 0) ''grid.fits'' False ?s0
     = (Inl (ValueError ''Full data set not specified (lamb, seds, grid)''), ?s0)
   \<and> GridBackend_writeHDF io (PyRef 0) ''grid.hd5'' False ?s1
     = (Inl (TypeError ''Only astropy.Table are supported''), ?s1)
   \<and> fst (py_bind (MemoryBackend_new io (PyRef 0) (PyRef 1) (PyRef 3) PyNone PyNone
                     (PyRef 2) (PyRef 4))
             (\<lambda>new. GridBackend_writeFITS io new ''grid.fits'' False) ?s2)
     = Inr (FitsWrite ''grid.fits'' False
              [PrimaryHDU (PyRef 0), ImageHDU (PyRef 1) ''seds'', BinTableHDU (PyRef 3) ''grid''])"
    by blast
qed

text \<open>
  C2. Reading \<^verbatim>\<open>header\<close> from a new \<^verbatim>\<open>CacheBackend\<close> never returns a value: when the
  file type is known and the table can be read, line 559 asks the \<^verbatim>\<open>Table\<close> for an
  attribute \<^verbatim>\<open>header\<close> that it does not have, and the result is an \<^verbatim>\<open>AttributeError\<close>.
\<close>

theorem cache_header_raises:
  "fst (py_bind (CacheBackend_new fname) (\<lambda>self. get_attr io self ''header'') s) =
     (case get_type fname of
        Inl e \<Rightarrow> Inl e
      | Inr t \<Rightarrow>
          (case (if t = ''fits'' then table_read io fname else table_read_hdf5 io fname) of
             Inl e \<Rightarrow> Inl e
           | Inr tc \<Rightarrow> Inl (AttributeError ''header'')))"
proof (cases "get_type fname")
  case (Inl e)
  then show ?thesis
    by (simp add: CacheBackend_new_def CacheBackend_init_def GridBackend_init_def store_simps)
next
  case (Inr t)
  then have t: "t = ''fits'' \<or> t = ''hdf''"
    by (auto simp: get_type_cases split: if_splits)
  show ?thesis
  proof (cases "if t = ''fits'' then table_read io fname else table_read_hdf5 io fname")
    case (Inl e)
    then show ?thesis using Inr t
      by (auto simp: CacheBackend_new_def CacheBackend_init_def GridBackend_init_def
          CacheBackend_clear_def get_attr_def CacheBackend_header_def CacheBackend_load_grid_def
          fname_of_def new_table_def store_simps split: if_splits)
  next
    case tc: (Inr tc)
    obtain cols meta where "tc = (cols, meta)" by (cases tc)
    then show ?thesis using Inr t tc
      by (auto simp: CacheBackend_new_def CacheBackend_init_def GridBackend_init_def
          CacheBackend_clear_def get_attr_def CacheBackend_header_def CacheBackend_load_grid_def
          fname_of_def new_table_def obj_getattr_def store_simps split: if_splits)
  qed
qed

text \<open>The same holds in every store: the property never returns a value.\<close>

lemma cache_header_always_raises: "\<exists>e. fst (CacheBackend_header io self s) = Inl e"
proof -
  have "\<exists>e. fst (obj_getattr g ''header'' s') = Inl e" for g s'
    by (auto simp: obj_getattr_def split: option.splits pyobj.splits)
  then show ?thesis
    unfolding CacheBackend_header_def py_then_def py_bind_def
    by (auto split: prod.splits sum.splits)
qed

text \<open>
  A \<^verbatim>\<open>MemoryBackend\<close> built from the same HDF file returns the metadata of the table as
  its \<^verbatim>\<open>header\<close>.
\<close>

lemma memory_header_from_hdf:
  assumes "get_type fname = Inr ''hdf''"
    and "h5_data io fname ''seds'' = Inr sd" and "h5_data io fname ''lamb'' = Inr lm"
    and "h5_keys io fname = Inr ks" and "''covdiag'' \<notin> set ks"
    and "table_read_hdf5 io fname = Inr (cols, meta)"
    and "map_of meta ''filters'' = None \<or> (\<exists>t. map_of meta ''filters'' = Some (PyStr t))"
    and "al < length s" and "s ! al = DictObj akvs" and "ha < length s" and "s ! ha = DictObj []"
  shows "\<exists>h s'. py_bind (MemoryBackend_new io (PyStr fname) PyNone PyNone PyNone PyNone
                          (PyRef ha) (PyRef al))
                  (\<lambda>self. get_attr io self ''header'') s = (Inr h, s')
               \<and> obj_at s' h = Some (DictObj meta)"
  using assms
  by (auto simp: MemoryBackend_new_def MemoryBackend_init_def GridBackend_init_def from_File_def
      new_array_def new_table_def get_attr_def obj_getattr_def dict_keys_def dict_get_def
      store_simps map_of_eq_None_iff list_update_id
      split: pyval.splits)

text \<open>
  C5, the claim as made. A \<^verbatim>\<open>MemoryBackend\<close> built from another one holds the very arrays
  of its source: in the store below the source is object 5 and its wavelengths are object 0;
  the new grid is object 8, and once the wavelengths of the source are changed in place to
  \<open>[9, 2]\<close>, the new grid reads \<open>[9, 2]\<close> as its \<^verbatim>\<open>lamb\<close>.
\<close>

theorem from_grid_not_a_copy_counterexample:
  "\<forall>io. MemoryBackend_new io (PyRef 5) PyNone PyNone PyNone PyNone (PyRef 6) (PyRef 7)
          [Array1 [1, 2], Array2 [[3, 4]], DictObj [], TableObj [(''M_ini'', [1])] (PyRef 2),
           DictObj [],
           Instance MemoryBackendC
             [(''_filters'', PyNone), (''_header'', PyRef 2), (''fname'', PyStr '':memory:''),
              (''_aliases'', PyRef 4), (''lamb'', PyRef 0), (''seds'', PyRef 1),
              (''grid'', PyRef 3), (''cov_diag'', PyNone), (''cov_offdiag'', PyNone)],
           DictObj [], DictObj []]
       = (Inr (PyRef 8),
          [Array1 [1, 2], Array2 [[3, 4]], DictObj [], TableObj [(''M_ini'', [1])] (PyRef 2),
           DictObj [],
           Instance MemoryBackendC
             [(''_filters'', PyNone), (''_header'', PyRef 2), (''fname'', PyStr '':memory:''),
              (''_aliases'', PyRef 4), (''lamb'', PyRef 0), (''seds'', PyRef 1),
              (''grid'', PyRef 3), (''cov_diag'', PyNone), (''cov_offdiag'', PyNone)],
           DictObj [], DictObj [],
           Instance MemoryBackendC
             [(''_filters'', PyNone), (''_header'', PyRef 2), (''fname'', PyStr '':memory:''),
              (''_aliases'', PyRef 4), (''lamb'', PyRef 0), (''seds'', PyRef 1),
              (''grid'', PyRef 3)],
           DictObj []])
     \<and> py_bind (get_attr io (PyRef 8) ''lamb'') (\<lambda>l s. (Inr (obj_at s l), s))
          [Array1 [9, 2], Array2 [[3, 4]], DictObj [], TableObj [(''M_ini'', [1])] (PyRef 2),
           DictObj [],
           Instance MemoryBackendC
             [(''_filters'', PyNone), (''_header'', PyRef 2), (''fname'', PyStr '':memory:''),
              (''_aliases'', PyRef 4), (''lamb'', PyRef 0), (''seds'', PyRef 1),
              (''grid'', PyRef 3), (''cov_diag'', PyNone), (''cov_offdiag'', PyNone)],
           DictObj [], DictObj [],
           Instance MemoryBackendC
             [(''_filters'', PyNone), (''_header'', PyRef 2), (''fname'', PyStr '':memory:''),
              (''_aliases'', PyRef 4), (''lamb'', PyRef 0), (''seds'', PyRef 1),
              (''grid'', PyRef 3)],
           DictObj []]
       = (Inr (Some (Array1 [9, 2])),
          [Array1 [9, 2], Array2 [[3, 4]], DictObj [], TableObj [(''M_ini'', [1])] (PyRef 2),
           DictObj [],
           Instance MemoryBackendC
             [(''_filters'', PyNone), (''_header'', PyRef 2), (''fname'', PyStr '':memory:''),
              (''_aliases'', PyRef 4), (''lamb'', PyRef 0), (''seds'', PyRef 1),
              (''grid'', PyRef 3), (''cov_diag'', PyNone), (''cov_offdiag'', PyNone)],
           DictObj [], DictObj [],
           Instance MemoryBackendC
             [(''_filters'', PyNone), (''_header'', PyRef 2), (''fname'', PyStr '':memory:''),
              (''_aliases'', PyRef 4), (''lamb'', PyRef 0), (''seds'', PyRef 1),
              (''grid'', PyRef 3)],
           DictObj []])"
  by (simp add: MemoryBackend_new_def MemoryBackend_init_def GridBackend_init_def
      from_GridBackend_def get_attr_def store_simps)

text \<open>
  C5, amended. Building a \<^verbatim>\<open>MemoryBackend\<close> from a \<^verbatim>\<open>MemoryBackend\<close> or a plain
  \<^verbatim>\<open>GridBackend\<close> whose fields are set succeeds, and the fields \<^verbatim>\<open>lamb\<close>, \<^verbatim>\<open>seds\<close>,
  \<^verbatim>\<open>grid\<close>, \<^verbatim>\<open>_filters\<close>, \<^verbatim>\<open>_header\<close> and \<^verbatim>\<open>_aliases\<close> of the new grid are the same
  references as those of the source (the header argument when the source has no header):
  the two grids share the objects, and the source itself is left as it was.
\<close>

theorem from_grid_shares_fields:
  assumes b: "ba < length s" "s ! ba = Instance c d" "c = MemoryBackendC \<or> c = GridBackendC"
    and fields: "map_of d ''lamb'' = Some vl" "map_of d ''seds'' = Some vs"
      "map_of d ''grid'' = Some vg" "map_of d ''_filters'' = Some vf"
      "map_of d ''_header'' = Some vh" "map_of d ''_aliases'' = Some (PyRef va)"
    and hdr: "vh = PyNone \<or> (\<exists>hh hk. vh = PyRef hh \<and> hh < length s \<and> s ! hh = DictObj hk)"
    and dicts: "ha < length s" "s ! ha = DictObj hkvs" "va < length s" "s ! va = DictObj vakvs"
      "al < length s" "s ! al = DictObj akvs"
  shows "\<exists>s'. MemoryBackend_new io (PyRef ba) seds grid cov_diag cov_offdiag (PyRef ha) (PyRef al) s
              = (Inr (PyRef (length s)), s')
         \<and> getattr_plain (PyRef (length s)) ''lamb'' s' = (Inr vl, s')
         \<and> getattr_plain (PyRef (length s)) ''seds'' s' = (Inr vs, s')
         \<and> getattr_plain (PyRef (length s)) ''grid'' s' = (Inr vg, s')
         \<and> getattr_plain (PyRef (length s)) ''_filters'' s' = (Inr vf, s')
         \<and> getattr_plain (PyRef (length s)) ''_header'' s'
             = (Inr (if vh = PyNone then PyRef ha else vh), s')
         \<and> getattr_plain (PyRef (length s)) ''_aliases'' s' = (Inr (PyRef va), s')
         \<and> s' ! ba = Instance c d"
proof -
  have ne: "c \<noteq> CacheBackendC" "c \<noteq> HDFBackendC" using b(3) by auto
  have nva: "va \<noteq> ba" using b(2) dicts(4) by auto
  from hdr show ?thesis
  proof
    assume "vh = PyNone"
    then show ?thesis using b(1,2) ne nva fields dicts
      by (cases c)
         (simp_all add: MemoryBackend_new_def MemoryBackend_init_def GridBackend_init_def
          from_GridBackend_def get_attr_def store_simps nth_list_update)
  next
    assume "\<exists>hh hk. vh = PyRef hh \<and> hh < length s \<and> s ! hh = DictObj hk"
    then obtain hh hk where hh: "vh = PyRef hh" "hh < length s" "s ! hh = DictObj hk" by blast
    then have "hh \<noteq> ba" using b(2) by auto
    with hh show ?thesis using b(1,2) ne nva fields dicts
      by (cases c)
         (auto simp add: MemoryBackend_new_def MemoryBackend_init_def GridBackend_init_def
          from_GridBackend_def get_attr_def store_simps nth_list_update)
  qed
qed

theorem from_grid_shares_fields_witness:
  "\<forall>io. \<exists>s'. MemoryBackend_new io (PyRef 5) PyNone PyNone PyNone PyNone (PyRef 6) (PyRef 7)
          [Array1 [1, 2], Array2 [[3, 4]], DictObj [], TableObj [(''M_ini'', [1])] (PyRef 2),
           DictObj [],
           Instance MemoryBackendC
             [(''_filters'', PyNone), (''_header'', PyRef 2), (''fname'', PyStr '':memory:''),
              (''_aliases'', PyRef 4), (''lamb'', PyRef 0), (''seds'', PyRef 1),
              (''grid'', PyRef 3), (''cov_diag'', PyNone), (''cov_offdiag'', PyNone)],
           DictObj [], DictObj []] = (Inr (PyRef 8), s')
     \<and> getattr_plain (PyRef 8) ''lamb'' s' = (Inr (PyRef 0), s')
     \<and> getattr_plain (PyRef 8) ''seds'' s' = (Inr (PyRef 1), s')
     \<and> getattr_plain (PyRef 8) ''grid'' s' = (Inr (PyRef 3), s')
     \<and> getattr_plain (PyRef 8) ''_header'' s' = (Inr (PyRef 2), s')
     \<and> getattr_plain (PyRef 8) ''_aliases'' s' = (Inr (PyRef 4), s')"
proof
  fix io
  let ?d = "[(''_filters'', PyNone), (''_header'', PyRef 2), (''fname'', PyStr '':memory:''),
              (''_aliases'', PyRef 4), (''lamb'', PyRef 0), (''seds'', PyRef 1),
              (''grid'', PyRef 3), (''cov_diag'', PyNone), (''cov_offdiag'', PyNone)]"
  let ?s = "[Array1 [1, 2], Array2 [[3, 4]], DictObj [], TableObj [(''M_ini'', [1])] (PyRef 2),
           DictObj [], Instance MemoryBackendC ?d, DictObj [], DictObj []]"
  show "\<exists>s'. MemoryBackend_new io (PyRef 5) PyNone PyNone PyNone PyNone (PyRef 6) (PyRef 7) ?s
            = (Inr (PyRef 8), s')
     \<and> getattr_plain (PyRef 8) ''lamb'' s' = (Inr (PyRef 0), s')
     \<and> getattr_plain (PyRef 8) ''seds'' s' = (Inr (PyRef 1), s')
     \<and> getattr_plain (PyRef 8) ''grid'' s' = (Inr (PyRef 3), s')
     \<and> getattr_plain (PyRef 8) ''_header'' s' = (Inr (PyRef 2), s')
     \<and> getattr_plain (PyRef 8) ''_aliases'' s' = (Inr (PyRef 4), s')"
    using from_grid_shares_fields [where s = ?s and ba = 5 and c = MemoryBackendC and d = ?d
        and vl = "PyRef 0" and vs = "PyRef 1" and vg = "PyRef 3" and vf = PyNone
        and vh = "PyRef 2" and va = 4 and ha = 6 and al = 7 and io = io
        and seds = PyNone and grid = PyNone and cov_diag = PyNone and cov_offdiag = PyNone
        and hkvs = "[]" and vakvs = "[]" and akvs = "[]"]
    by (simp add: eval_nat_numeral) blast
qed

text \<open>
  Building a \<^verbatim>\<open>MemoryBackend\<close> from an \<^verbatim>\<open>HDFBackend\<close> stops at line 279 with an
  \<^verbatim>\<open>AttributeError\<close>.
\<close>

lemma from_HDFBackend_raises:
  "ba < length s \<Longrightarrow> s ! ba = Instance HDFBackendC d \<Longrightarrow>
   fst (MemoryBackend_new io (PyRef ba) seds grid cov_diag cov_offdiag header aliases s)
     = Inl (AttributeError ''_fromHDFBackend'')"
  by (simp add: MemoryBackend_new_def MemoryBackend_init_def GridBackend_init_def store_simps)

end
